theory Spec2Isabelle
  imports Main "HOL-Library.Sublist"
begin

section \<open>Python values used by \<^verbatim>\<open>scraper_with_translation.py\<close>\<close>

subsection \<open>Strings\<close>

text \<open>
  A Python \<^verbatim>\<open>str\<close> is a sequence of Unicode code points, so it is modelled as a list
  of naturals. The source's messages are Korean; their ASCII parts are written with
  \<open>ascii\<close>, the rest as code points (an English gloss stands beside each).
\<close>

type_synonym str = "nat list"

definition ascii :: "string \<Rightarrow> str" where
  "ascii cs = map of_char cs"

text \<open>
  \<^verbatim>\<open>str.strip()\<close> with no argument removes leading and trailing code points for which
  \<^verbatim>\<open>str.isspace()\<close> holds; the list below is CPython's whitespace table.
\<close>

definition isspace :: "nat \<Rightarrow> bool" where
  "isspace c \<longleftrightarrow>
     (0x09 \<le> c \<and> c \<le> 0x0D) \<or> (0x1C \<le> c \<and> c \<le> 0x20) \<or> c = 0x85 \<or> c = 0xA0 \<or>
     c = 0x1680 \<or> (0x2000 \<le> c \<and> c \<le> 0x200A) \<or> c = 0x2028 \<or> c = 0x2029 \<or>
     c = 0x202F \<or> c = 0x205F \<or> c = 0x3000"

definition strip :: "str \<Rightarrow> str" where
  "strip s = rev (dropWhile isspace (rev (dropWhile isspace s)))"

text \<open>Decimal rendering, as \<^verbatim>\<open>{n}\<close> in an f-string does for an \<^verbatim>\<open>int\<close>.\<close>

fun str_of_nat :: "nat \<Rightarrow> str" where
  "str_of_nat n = (if n < 10 then [0x30 + n] else str_of_nat (n div 10) @ [0x30 + n mod 10])"

definition str_of_int :: "int \<Rightarrow> str" where
  "str_of_int i = (if i < 0 then 0x2D # str_of_nat (nat (- i)) else str_of_nat (nat i))"

text \<open>\<^verbatim>\<open>{week:02d}\<close>: at least two characters, padded with zeros on the left.\<close>

definition format_02d :: "int \<Rightarrow> str" where
  "format_02d i = (if 0 \<le> i \<and> i < 10 then 0x30 # str_of_int i else str_of_int i)"

subsection \<open>Exceptions\<close>

text \<open>
  The exception classes the program's handlers tell apart, and those its own statements
  raise. All are subclasses of \<^verbatim>\<open>Exception\<close>. \<open>ReqConnectionError\<close>,
  \<open>ReqHTTPError\<close> and \<open>ReqOtherError\<close> are \<^verbatim>\<open>requests.exceptions.RequestException\<close>
  and its subclasses (\<^verbatim>\<open>ConnectionError\<close>, \<^verbatim>\<open>HTTPError\<close>, the others);
  \<open>APIConnectionError\<close> is the translation client's connection error. \<open>message\<close> is
  what \<^verbatim>\<open>{e}\<close> renders.
\<close>

datatype exn_class =
  ReqConnectionError | ReqHTTPError | ReqOtherError | APIConnectionError |
  OverflowError | ValueError | IndexError | AttributeError | OSError | OtherError

datatype exn = Exn (cls: exn_class) (message: str)

text \<open>\<^verbatim>\<open>except (requests.exceptions.ConnectionError, OpenAI.APIConnectionError)\<close>\<close>

definition is_connectivity :: "exn \<Rightarrow> bool" where
  "is_connectivity e \<longleftrightarrow> cls e = ReqConnectionError \<or> cls e = APIConnectionError"

text \<open>\<^verbatim>\<open>except requests.exceptions.RequestException\<close>\<close>

definition is_request_exception :: "exn \<Rightarrow> bool" where
  "is_request_exception e \<longleftrightarrow>
     cls e = ReqConnectionError \<or> cls e = ReqHTTPError \<or> cls e = ReqOtherError"

section \<open>The outside world\<close>

text \<open>
  An HTML document is modelled by what the program's XPath queries return on it, in
  document order: the \<^verbatim>\<open>article\<close> nodes of the listing path, each with its
  \<^verbatim>\<open>.//h3\<close> elements, each of those with its \<^verbatim>\<open>./a/@href\<close> and \<^verbatim>\<open>./a/text()\<close>
  results; and the \<^verbatim>\<open>text_content()\<close> of the paragraphs of the abstract path.
\<close>

record h3_element =
  hrefs :: "str list"
  texts :: "str list"

record article =
  h3s :: "h3_element list"

record html_doc =
  listing_articles :: "article list"
  abstract_paragraphs :: "str list"

text \<open>
  An HTTP response: its status code, the text \<^verbatim>\<open>raise_for_status()\<close> puts in its
  \<^verbatim>\<open>HTTPError\<close>, and what \<^verbatim>\<open>html.fromstring(response.content)\<close> gives (a tree, or
  the exception the parser raises).
\<close>

record response =
  status_code :: nat
  status_text :: str
  parsed :: "exn + html_doc"

text \<open>
  A chat completion: for each of \<^verbatim>\<open>response.choices\<close> its \<^verbatim>\<open>message.content\<close>,
  which is \<^verbatim>\<open>None\<close> or a string.
\<close>

record completion =
  choices :: "str option list"

text \<open>The client object \<^verbatim>\<open>OpenAI(api_key=...)\<close>; \<^verbatim>\<open>None\<close> is \<open>None\<close>.\<close>

datatype client = OpenAI str

text \<open>
  What the run reads from outside: the value of \<^verbatim>\<open>OPENAI_API_KEY\<close> after
  \<^verbatim>\<open>load_dotenv()\<close>, today's date (its proleptic Gregorian ordinal, \<^verbatim>\<open>toordinal()\<close>),
  the outcome of the \<open>n\<close>-th \<^verbatim>\<open>requests.get\<close> of the run on a URL, the outcome of the
  \<open>n\<close>-th \<^verbatim>\<open>chat.completions.create\<close> on a user message, whether the class
  \<^verbatim>\<open>OpenAI\<close> of the installed client library has an attribute \<^verbatim>\<open>APIConnectionError\<close>
  (the library is not part of the program), and whether opening a file for writing fails.
  The package \<^verbatim>\<open>openai\<close> defines \<^verbatim>\<open>APIConnectionError\<close> at module level and its
  client class \<^verbatim>\<open>OpenAI\<close> has no attribute of that name: the program runs in worlds
  where \<open>openai_has_api_connection_error\<close> is \<open>False\<close>. Worlds where it is \<open>True\<close>
  show what the handlers were written to do.
\<close>

record world =
  env_api_key :: "str option"
  today :: int
  http :: "nat \<Rightarrow> str \<Rightarrow> exn + response"
  chat :: "nat \<Rightarrow> str \<Rightarrow> exn + completion"
  openai_has_api_connection_error :: bool
  open_error :: "str \<Rightarrow> exn option"

text \<open>
  What the run changes: the lines printed, the arguments of \<^verbatim>\<open>time.sleep\<close>, the URLs
  requested, the user messages sent to the translation endpoint, and the files.
\<close>

record state =
  console :: "str list"
  slept :: "nat list"
  requested :: "str list"
  api_log :: "str list"
  files :: "str \<Rightarrow> str option"

definition py_print :: "str \<Rightarrow> state \<Rightarrow> state" where
  "py_print line s = s\<lparr>console := console s @ [line]\<rparr>"

definition sleep :: "nat \<Rightarrow> state \<Rightarrow> state" where
  "sleep seconds s = s\<lparr>slept := slept s @ [seconds]\<rparr>"

text \<open>\<^verbatim>\<open>f.write(text)\<close> on the file opened under the name \<open>f\<close>: appends.\<close>

definition file_write :: "str \<Rightarrow> str \<Rightarrow> state \<Rightarrow> state" where
  "file_write f text s =
     s\<lparr>files := (files s)(f \<mapsto> (case files s f of None \<Rightarrow> text | Some old \<Rightarrow> old @ text))\<rparr>"

section \<open>\<^verbatim>\<open>translate_text_with_openai\<close>\<close>

text \<open>"There is no text to translate."\<close>

definition msg_no_text :: str where
  "msg_no_text =
     [0xBC88, 0xC5ED, 0xD560, 0x20, 0xD14D, 0xC2A4, 0xD2B8, 0xAC00, 0x20, 0xC5C6, 0xC2B5,
      0xB2C8, 0xB2E4, 0x2E]"

text \<open>"The OpenAI client has not been set up."\<close>

definition msg_no_client :: str where
  "msg_no_client =
     ascii ''OpenAI '' @
     [0xD074, 0xB77C, 0xC774, 0xC5B8, 0xD2B8, 0xAC00, 0x20, 0xC124, 0xC815, 0xB418, 0xC9C0,
      0x20, 0xC54A, 0xC558, 0xC2B5, 0xB2C8, 0xB2E4, 0x2E]"

definition max_retries :: nat where
  "max_retries = 3"

text \<open>The user message of the request.\<close>

definition user_content :: "str \<Rightarrow> str" where
  "user_content text =
     ascii ''Translate the following English text to Korean:'' @ [0x0A, 0x0A] @ text"

text \<open>
  "   > Translation attempt \<open>attempt + 1\<close>/\<open>max_retries\<close> failed: network error.
  Retrying in \<open>delay\<close> seconds."
\<close>

definition msg_retry :: "nat \<Rightarrow> nat \<Rightarrow> str" where
  "msg_retry attempt delay =
     [0x20, 0x20, 0x20, 0x3E, 0x20, 0xBC88, 0xC5ED, 0x20, 0xC2DC, 0xB3C4, 0x20] @
     str_of_nat (attempt + 1) @ [0x2F] @ str_of_nat max_retries @
     [0x20, 0xC2E4, 0xD328, 0x3A, 0x20, 0xB124, 0xD2B8, 0xC6CC, 0xD06C, 0x20, 0xC624, 0xB958,
      0x2E, 0x20] @
     str_of_nat delay @
     [0xCD08, 0x20, 0xD6C4, 0x20, 0xC7AC, 0xC2DC, 0xB3C4, 0xD569, 0xB2C8, 0xB2E4, 0x2E]"

text \<open>"Unexpected error during translation: \<open>e\<close>"\<close>

definition msg_unexpected :: "exn \<Rightarrow> str" where
  "msg_unexpected e =
     [0xBC88, 0xC5ED, 0x20, 0xC911, 0x20, 0xC608, 0xC0C1, 0xCE58, 0x20, 0xBABB, 0xD55C, 0x20,
      0xC624, 0xB958, 0x20, 0xBC1C, 0xC0DD, 0x3A, 0x20] @ message e"

text \<open>
  "Error during translation: the network connection still failed after \<open>max_retries\<close>
  attempts."
\<close>

definition msg_exhausted :: str where
  "msg_exhausted =
     [0xBC88, 0xC5ED, 0x20, 0xC911, 0x20, 0xC624, 0xB958, 0x20, 0xBC1C, 0xC0DD, 0x3A, 0x20] @
     str_of_nat max_retries @
     [0xBC88, 0xC758, 0x20, 0xC2DC, 0xB3C4, 0x20, 0xD6C4, 0xC5D0, 0xB3C4, 0x20, 0xB124, 0xD2B8,
      0xC6CC, 0xD06C, 0x20, 0xC5F0, 0xACB0, 0xC5D0, 0x20, 0xC2E4, 0xD328, 0xD588, 0xC2B5,
      0xB2C8, 0xB2E4, 0x2E]"

text \<open>
  The body of the \<^verbatim>\<open>try\<close>: the call either raises or returns a response, and
  \<^verbatim>\<open>response.choices[0].message.content.strip()\<close> raises \<^verbatim>\<open>IndexError\<close> on an empty
  list of choices and \<^verbatim>\<open>AttributeError\<close> on a content that is \<^verbatim>\<open>None\<close>.
\<close>

definition first_choice_stripped :: "exn + completion \<Rightarrow> exn + str" where
  "first_choice_stripped outcome =
     (case outcome of
        Inl e \<Rightarrow> Inl e
      | Inr r \<Rightarrow>
          (case choices r of
             [] \<Rightarrow> Inl (Exn IndexError (ascii ''list index out of range''))
           | None # _ \<Rightarrow>
               Inl (Exn AttributeError
                 ([0x27] @ ascii ''NoneType'' @ [0x27] @ ascii '' object has no attribute '' @
                  [0x27] @ ascii ''strip'' @ [0x27]))
           | Some content # _ \<Rightarrow> Inr (strip content)))"

text \<open>
  What \<^verbatim>\<open>{e}\<close> renders for the \<^verbatim>\<open>AttributeError\<close> of a failed lookup of
  \<^verbatim>\<open>OpenAI.APIConnectionError\<close>.
\<close>

definition msg_no_attribute :: str where
  "msg_no_attribute =
     ascii ''type object '' @ [0x27] @ ascii ''OpenAI'' @ [0x27] @ ascii '' has no attribute '' @
     [0x27] @ ascii ''APIConnectionError'' @ [0x27]"

text \<open>
  The loop \<^verbatim>\<open>for attempt in range(max_retries)\<close> with its two handlers, and the
  \<^verbatim>\<open>return\<close> after the loop. \<open>Inr\<close> is the string returned, \<open>Inl\<close> an exception
  that leaves the function. When the body of the \<^verbatim>\<open>try\<close> has raised, Python evaluates
  the tuple of the first \<^verbatim>\<open>except\<close> clause; the lookup \<^verbatim>\<open>OpenAI.APIConnectionError\<close>
  raises \<^verbatim>\<open>AttributeError\<close> when the class has no such attribute, and no clause of the
  same \<^verbatim>\<open>try\<close> catches that.
\<close>

function translate_attempts ::
    "world \<Rightarrow> str \<Rightarrow> nat \<Rightarrow> nat \<Rightarrow> state \<Rightarrow> (exn + str) \<times> state" where
  "translate_attempts w text attempt delay s =
     (if attempt < max_retries then
        (let user = user_content text;
             s1 = s\<lparr>api_log := api_log s @ [user]\<rparr>
         in case first_choice_stripped (chat w (length (api_log s)) user) of
              Inr translated \<Rightarrow> (Inr translated, s1)
            | Inl e \<Rightarrow>
                if \<not> openai_has_api_connection_error w
                then (Inl (Exn AttributeError msg_no_attribute), s1)
                else if is_connectivity e then
                  translate_attempts w text (attempt + 1) (delay * 2)
                    (sleep delay (py_print (msg_retry attempt delay) s1))
                else (Inr (msg_unexpected e), s1))
      else (Inr msg_exhausted, s))"
  by pat_completeness auto
termination
  by (relation "measure (\<lambda>(w, text, attempt, delay, s). max_retries - attempt)") auto

declare translate_attempts.simps [simp del]

definition translate_text_with_openai ::
    "world \<Rightarrow> client option \<Rightarrow> str \<Rightarrow> state \<Rightarrow> (exn + str) \<times> state" where
  "translate_text_with_openai w client text s =
     (if text = [] \<or> strip text = [] then (Inr msg_no_text, s)
      else if client = None then (Inr msg_no_client, s)
      else translate_attempts w text 0 2 s)"

section \<open>\<^verbatim>\<open>setup_api\<close>\<close>

text \<open>"Error: the environment variable OPENAI_API_KEY was not found."\<close>

definition msg_key_missing :: str where
  "msg_key_missing =
     [0xC624, 0xB958] @ ascii '': OPENAI_API_KEY '' @
     [0xD658, 0xACBD, 0x20, 0xBCC0, 0xC218, 0xB97C, 0x20, 0xCC3E, 0xC744, 0x20, 0xC218, 0x20,
      0xC5C6, 0xC2B5, 0xB2C8, 0xB2E4, 0x2E]"

text \<open>
  "Please check that the .env file exists and that OPENAI_API_KEY is set correctly in
  it."
\<close>

definition msg_check_env :: str where
  "msg_check_env =
     ascii ''.env '' @
     [0xD30C, 0xC77C, 0xC774, 0x20, 0xC874, 0xC7AC, 0xD558, 0xACE0, 0x2C, 0x20, 0xADF8, 0x20,
      0xC548, 0xC5D0] @ ascii '' OPENAI_API_KEY'' @
     [0xAC00, 0x20, 0xC62C, 0xBC14, 0xB974, 0xAC8C, 0x20, 0xC124, 0xC815, 0xB418, 0xC5C8,
      0xB294, 0xC9C0, 0x20, 0xD655, 0xC778, 0xD574, 0xC8FC, 0xC138, 0xC694, 0x2E]"

text \<open>"The OpenAI API key was loaded successfully."\<close>

definition msg_key_loaded :: str where
  "msg_key_loaded =
     ascii ''OpenAI API '' @
     [0xD0A4, 0xB97C, 0x20, 0xC131, 0xACF5, 0xC801, 0xC73C, 0xB85C, 0x20, 0xBD88, 0xB7EC,
      0xC654, 0xC2B5, 0xB2C8, 0xB2E4, 0x2E]"

text \<open>\<^verbatim>\<open>if not api_key\<close> holds for \<^verbatim>\<open>None\<close> and for the empty string.\<close>

definition setup_api :: "world \<Rightarrow> state \<Rightarrow> client option \<times> state" where
  "setup_api w s =
     (case env_api_key w of
        None \<Rightarrow> (None, py_print msg_check_env (py_print msg_key_missing s))
      | Some api_key \<Rightarrow>
          if api_key = [] then (None, py_print msg_check_env (py_print msg_key_missing s))
          else (Some (OpenAI api_key), py_print msg_key_loaded s))"

section \<open>\<^verbatim>\<open>get_previous_week_info\<close>\<close>

text \<open>
  A \<^verbatim>\<open>date\<close> is modelled by its proleptic Gregorian ordinal (day 1 is 0001-01-01, a
  Monday). The functions below are those of CPython's \<^verbatim>\<open>datetime\<close>:
  \<^verbatim>\<open>_is_leap\<close>, \<^verbatim>\<open>_days_before_year\<close>, \<^verbatim>\<open>_days_before_month\<close>, \<^verbatim>\<open>_ymd2ord\<close>, the
  year of \<^verbatim>\<open>_ord2ymd\<close>, \<^verbatim>\<open>_isoweek1monday\<close> and \<^verbatim>\<open>date.isocalendar\<close>. Python's
  \<^verbatim>\<open>divmod\<close> on integers rounds down, as \<open>div\<close> and \<open>mod\<close> on \<open>int\<close> do.
\<close>

definition is_leap :: "int \<Rightarrow> bool" where
  "is_leap year \<longleftrightarrow> year mod 4 = 0 \<and> (year mod 100 \<noteq> 0 \<or> year mod 400 = 0)"

definition days_before_year :: "int \<Rightarrow> int" where
  "days_before_year year = (let y = year - 1 in y * 365 + y div 4 - y div 100 + y div 400)"

text \<open>
  \<^verbatim>\<open>_DAYS_BEFORE_MONTH[month] + (month > 2 and _is_leap(year))\<close>; the table has a
  placeholder at index 0, and the function is called with months from 1 to 12.
\<close>

definition days_before_month :: "int \<Rightarrow> int \<Rightarrow> int" where
  "days_before_month year month =
     [- 1, 0, 31, 59, 90, 120, 151, 181, 212, 243, 273, 304, 334] ! nat month +
     (if month > 2 \<and> is_leap year then 1 else 0)"

text \<open>The ordinal of a calendar date (\<open>1 \<le> month \<le> 12\<close>, \<open>day\<close> a day of that month).\<close>

definition ymd2ord :: "int \<Rightarrow> int \<Rightarrow> int \<Rightarrow> int" where
  "ymd2ord year month day = days_before_year year + days_before_month year month + day"

definition max_ordinal :: int where
  "max_ordinal = 3652059"

text \<open>The year \<^verbatim>\<open>_ord2ymd(n)\<close> returns: the \<^verbatim>\<open>year\<close> of the date with ordinal \<open>n\<close>.\<close>

definition ord2year :: "int \<Rightarrow> int" where
  "ord2year ordinal =
     (let n = ordinal - 1;
          n400 = n div 146097; n = n mod 146097;
          year = n400 * 400 + 1;
          n100 = n div 36524; n = n mod 36524;
          n4 = n div 1461; n = n mod 1461;
          n1 = n div 365;
          year = year + n100 * 100 + n4 * 4 + n1
      in if n1 = 4 \<or> n100 = 4 then year - 1 else year)"

definition isoweek1monday :: "int \<Rightarrow> int" where
  "isoweek1monday year =
     (let firstday = ymd2ord year 1 1;
          firstweekday = (firstday + 6) mod 7;
          week1monday = firstday - firstweekday
      in if firstweekday > 3 then week1monday + 7 else week1monday)"

definition isocalendar :: "int \<Rightarrow> int \<times> int \<times> int" where
  "isocalendar ordinal =
     (let year = ord2year ordinal;
          week1monday = isoweek1monday year;
          week = (ordinal - week1monday) div 7;
          day = (ordinal - week1monday) mod 7
      in if week < 0 then
           (let year = year - 1;
                week1monday = isoweek1monday year;
                week = (ordinal - week1monday) div 7;
                day = (ordinal - week1monday) mod 7
            in (year, week + 1, day + 1))
         else if week \<ge> 52 \<and> ordinal \<ge> isoweek1monday (year + 1) then (year + 1, 1, day + 1)
         else (year, week + 1, day + 1))"

text \<open>
  \<^verbatim>\<open>today - timedelta(days=7)\<close> raises \<^verbatim>\<open>OverflowError\<close> when the result is not a
  date (\<^verbatim>\<open>date.min\<close> has ordinal 1, \<^verbatim>\<open>date.max\<close> has ordinal \<open>max_ordinal\<close>); the
  function has no handler for it.
\<close>

definition get_previous_week_info :: "world \<Rightarrow> exn + int \<times> int" where
  "get_previous_week_info w =
     (let last_week_date = today w - 7
      in if 0 < last_week_date \<and> last_week_date \<le> max_ordinal then
           (case isocalendar last_week_date of (year, week, _) \<Rightarrow> Inr (year, week))
         else Inl (Exn OverflowError (ascii ''date value out of range'')))"

section \<open>\<^verbatim>\<open>scrape_and_translate_papers\<close>\<close>

definition num_papers_to_scrape :: nat where
  "num_papers_to_scrape = 10"

definition base_url :: str where
  "base_url = ascii ''https://huggingface.co''"

definition week_str_of :: "int \<Rightarrow> int \<Rightarrow> str" where
  "week_str_of year week = str_of_int year @ ascii ''-W'' @ format_02d week"

definition target_url_of :: "str \<Rightarrow> str" where
  "target_url_of week_str = ascii ''https://huggingface.co/papers/week/'' @ week_str"

definition output_filename_of :: "str \<Rightarrow> str" where
  "output_filename_of week_str =
     ascii ''huggingface_top_10_papers_'' @ week_str @ ascii ''_translated.txt''"

text \<open>
  \<^verbatim>\<open>requests.get(url, timeout=10)\<close>, \<^verbatim>\<open>raise_for_status()\<close> (an \<^verbatim>\<open>HTTPError\<close> for a
  status from 400 to 599) and \<^verbatim>\<open>html.fromstring(response.content)\<close>: the three
  statements the listing page and every detail page go through.
\<close>

definition get_tree :: "world \<Rightarrow> str \<Rightarrow> state \<Rightarrow> (exn + html_doc) \<times> state" where
  "get_tree w url s =
     (let s1 = s\<lparr>requested := requested s @ [url]\<rparr>
      in case http w (length (requested s)) url of
           Inl e \<Rightarrow> (Inl e, s1)
         | Inr r \<Rightarrow>
             if 400 \<le> status_code r \<and> status_code r < 600
             then (Inl (Exn ReqHTTPError (status_text r)), s1)
             else (parsed r, s1))"

text \<open>"No link or title could be found inside the h3 tag."\<close>

definition msg_no_link_or_title :: str where
  "msg_no_link_or_title =
     [0x68, 0x33, 0x20, 0xD0DC, 0xADF8, 0x20, 0xC548, 0xC5D0, 0xC11C, 0x20, 0xB9C1, 0xD06C,
      0xB098, 0x20, 0xC81C, 0xBAA9, 0xC744, 0x20, 0xCC3E, 0xC744, 0x20, 0xC218, 0x20, 0xC5C6,
      0xC2B5, 0xB2C8, 0xB2E4, 0x2E]"

text \<open>"\<open>\<newline>\<close>(\<open>i + 1\<close>/\<open>n_articles\<close>) '\<open>title\<close>' being processed..."\<close>

definition msg_processing :: "nat \<Rightarrow> nat \<Rightarrow> str \<Rightarrow> str" where
  "msg_processing i n_articles title =
     [0x0A, 0x28] @ str_of_nat (i + 1) @ [0x2F] @ str_of_nat n_articles @ [0x29, 0x20, 0x27] @ title @
     [0x27, 0x20, 0xCC98, 0xB9AC, 0x20, 0xC911, 0x2E, 0x2E, 0x2E]"

text \<open>\<^verbatim>\<open>--- {i+1}. {title} ---\n\<close>\<close>

definition entry_heading :: "nat \<Rightarrow> str \<Rightarrow> str" where
  "entry_heading i title =
     ascii ''--- '' @ str_of_nat (i + 1) @ ascii ''. '' @ title @ ascii '' ---'' @ [0x0A]"

text \<open>\<^verbatim>\<open>Link: {paper_url}\n\n\<close>\<close>

definition link_line :: "str \<Rightarrow> str" where
  "link_line paper_url = ascii ''Link: '' @ paper_url @ [0x0A, 0x0A]"

text \<open>"   > Abstract found. Starting translation..."\<close>

definition msg_abstract_found :: str where
  "msg_abstract_found =
     [0x20, 0x20, 0x20, 0x3E, 0x20, 0xCD08, 0xB85D, 0xC744, 0x20, 0xCC3E, 0xC558, 0xC2B5,
      0xB2C8, 0xB2E4, 0x2E, 0x20, 0xBC88, 0xC5ED, 0xC744, 0x20, 0xC2DC, 0xC791, 0xD569,
      0xB2C8, 0xB2E4, 0x2E, 0x2E, 0x2E]"

text \<open>"   > Translation done."\<close>

definition msg_translation_done :: str where
  "msg_translation_done =
     [0x20, 0x20, 0x20, 0x3E, 0x20, 0xBC88, 0xC5ED, 0x20, 0xC644, 0xB8CC, 0x2E]"

definition original_heading :: str where
  "original_heading = ascii ''## Abstract (Original)'' @ [0x0A]"

text \<open>"## Abstract (Korean)\<open>\<newline>\<close>", the word for abstract in Korean.\<close>

definition korean_heading :: str where
  "korean_heading = [0x23, 0x23, 0x20, 0xCD08, 0xB85D] @ ascii '' (Korean)'' @ [0x0A]"

text \<open>"The abstract could not be found.\<open>\<newline>\<newline>\<close>"\<close>

definition abstract_not_found :: str where
  "abstract_not_found =
     [0xCD08, 0xB85D, 0xC744, 0x20, 0xCC3E, 0xC744, 0x20, 0xC218, 0x20, 0xC5C6, 0xC2B5,
      0xB2C8, 0xB2E4, 0x2E, 0x0A, 0x0A]"

text \<open>"Error while processing the item: \<open>e\<close>"\<close>

definition error_msg :: "exn \<Rightarrow> str" where
  "error_msg e =
     [0xD56D, 0xBAA9, 0x20, 0xCC98, 0xB9AC, 0x20, 0xC911, 0x20, 0xC624, 0xB958, 0x20, 0xBC1C,
      0xC0DD, 0x3A, 0x20] @ message e"

text \<open>"   > Error: \<open>error_msg\<close>"\<close>

definition msg_error :: "exn \<Rightarrow> str" where
  "msg_error e = [0x20, 0x20, 0x20, 0x3E, 0x20, 0xC624, 0xB958, 0x3A, 0x20] @ error_msg e"

text \<open>"--- \<open>i + 1\<close>. Item processing failed ---\<open>\<newline>\<close>\<open>error_msg\<close>\<open>\<newline>\<newline>\<close>"\<close>

definition failure_block :: "nat \<Rightarrow> exn \<Rightarrow> str" where
  "failure_block i e =
     ascii ''--- '' @ str_of_nat (i + 1) @
     [0x2E, 0x20, 0xD56D, 0xBAA9, 0x20, 0xCC98, 0xB9AC, 0x20, 0xC2E4, 0xD328, 0x20, 0x2D, 0x2D,
      0x2D, 0x0A] @ error_msg e @ [0x0A, 0x0A]"

text \<open>
  The body of the inner \<^verbatim>\<open>try\<close> (one entry): \<open>Inl e\<close> when a statement raises \<open>e\<close>,
  with the state as the statements before it left it. \<open>f\<close> is the open file, \<open>n_articles\<close> is
  \<^verbatim>\<open>len(paper_articles)\<close>.
\<close>

definition entry_body ::
    "world \<Rightarrow> client option \<Rightarrow> str \<Rightarrow> nat \<Rightarrow> nat \<Rightarrow> article \<Rightarrow> state \<Rightarrow> (exn + unit) \<times> state" where
  "entry_body w openai_client f n_articles i art s =
     (case h3s art of
        [] \<Rightarrow> (Inl (Exn IndexError (ascii ''list index out of range'')), s)
      | h3_element # _ \<Rightarrow>
          (case (hrefs h3_element, texts h3_element) of
             (relative_link # _, _ # _) \<Rightarrow>
               (let title = strip (concat (texts h3_element));
                    paper_url = base_url @ relative_link;
                    s = py_print (msg_processing i n_articles title) s;
                    s = file_write f (entry_heading i title) s;
                    s = file_write f (link_line paper_url) s
                in case get_tree w paper_url s of
                     (Inl e, s) \<Rightarrow> (Inl e, s)
                   | (Inr paper_tree, s) \<Rightarrow>
                       (case abstract_paragraphs paper_tree of
                          p # _ \<Rightarrow>
                            (let abstract = strip p;
                                 s = py_print msg_abstract_found s;
                                 s = file_write f original_heading s;
                                 s = file_write f (abstract @ [0x0A, 0x0A]) s
                             in case translate_text_with_openai w openai_client abstract s of
                                  (Inl e, s) \<Rightarrow> (Inl e, s)
                                | (Inr translated_abstract, s) \<Rightarrow>
                                    (let s = py_print msg_translation_done s;
                                         s = file_write f korean_heading s;
                                         s = file_write f (translated_abstract @ [0x0A, 0x0A]) s
                                     in (Inr (), s)))
                        | [] \<Rightarrow> (Inr (), file_write f abstract_not_found s)))
           | _ \<Rightarrow> (Inl (Exn ValueError msg_no_link_or_title), s)))"

text \<open>The inner \<^verbatim>\<open>try\<close> with its handler \<^verbatim>\<open>except Exception as e\<close>.\<close>

definition process_entry ::
    "world \<Rightarrow> client option \<Rightarrow> str \<Rightarrow> nat \<Rightarrow> nat \<Rightarrow> article \<Rightarrow> state \<Rightarrow> state" where
  "process_entry w openai_client f n_articles i art s =
     (case entry_body w openai_client f n_articles i art s of
        (Inr _, s) \<Rightarrow> s
      | (Inl e, s) \<Rightarrow> file_write f (failure_block i e) (py_print (msg_error e) s))"

text \<open>\<^verbatim>\<open>for i, article in enumerate(paper_articles)\<close>, from index \<open>i\<close> on.\<close>

fun process_articles ::
    "world \<Rightarrow> client option \<Rightarrow> str \<Rightarrow> nat \<Rightarrow> nat \<Rightarrow> article list \<Rightarrow> state \<Rightarrow> state" where
  "process_articles w openai_client f n_articles i [] s = s"
| "process_articles w openai_client f n_articles i (art # arts) s =
     process_articles w openai_client f n_articles (i + 1) arts
       (process_entry w openai_client f n_articles i art s)"

text \<open>"Fetching the list of papers from '\<open>target_url\<close>'..."\<close>

definition msg_fetching :: "str \<Rightarrow> str" where
  "msg_fetching target_url =
     [0x27] @ target_url @
     [0x27, 0xC5D0, 0xC11C, 0x20, 0xB17C, 0xBB38, 0x20, 0xBAA9, 0xB85D, 0xC744, 0x20, 0xAC00,
      0xC838, 0xC635, 0xB2C8, 0xB2E4, 0x2E, 0x2E, 0x2E]"

text \<open>"No paper information could be found for \<open>week_str\<close>."\<close>

definition msg_none_found :: "str \<Rightarrow> str" where
  "msg_none_found week_str =
     week_str @
     [0xC5D0, 0x20, 0xD574, 0xB2F9, 0xD558, 0xB294, 0x20, 0xB17C, 0xBB38, 0x20, 0xC815, 0xBCF4,
      0xB97C, 0x20, 0xCC3E, 0xC744, 0x20, 0xC218, 0x20, 0xC5C6, 0xC2B5, 0xB2C8, 0xB2E4, 0x2E]"

text \<open>"Found \<open>n\<close> papers in total. Starting to save to the file..."\<close>

definition msg_found :: "nat \<Rightarrow> str" where
  "msg_found n =
     [0xCD1D, 0x20] @ str_of_nat n @
     [0xAC1C, 0xC758, 0x20, 0xB17C, 0xBB38, 0xC744, 0x20, 0xCC3E, 0xC558, 0xC2B5, 0xB2C8,
      0xB2E4, 0x2E, 0x20, 0xD30C, 0xC77C, 0xC5D0, 0x20, 0xC800, 0xC7A5, 0xC744, 0x20, 0xC2DC,
      0xC791, 0xD569, 0xB2C8, 0xB2E4, 0x2E, 0x2E, 0x2E]"

text \<open>
  The two header lines: "Hugging Face weekly popular papers Top 10 (\<open>week_str\<close>) -
  translation\<open>\<newline>\<close>" and "Source: \<open>target_url\<close>\<open>\<newline>\<newline>\<close>".
\<close>

definition report_title :: "str \<Rightarrow> str" where
  "report_title week_str =
     ascii ''Hugging Face '' @ [0xC8FC, 0xAC04, 0x20, 0xC778, 0xAE30, 0x20, 0xB17C, 0xBB38] @
     ascii '' Top 10 ('' @ week_str @ [0x29, 0x20, 0x2D, 0x20, 0xBC88, 0xC5ED, 0xBCF8, 0x0A]"

definition report_source :: "str \<Rightarrow> str" where
  "report_source target_url = [0xCD9C, 0xCC98, 0x3A, 0x20] @ target_url @ [0x0A, 0x0A]"

text \<open>"\<open>\<newline>\<close>Done! All information was saved to the file '\<open>output_filename\<close>'."\<close>

definition msg_done :: "str \<Rightarrow> str" where
  "msg_done output_filename =
     [0x0A, 0xC644, 0xB8CC, 0x21, 0x20, 0xBAA8, 0xB4E0, 0x20, 0xC815, 0xBCF4, 0xAC00, 0x20,
      0x27] @ output_filename @
     [0x27, 0x20, 0xD30C, 0xC77C, 0xC5D0, 0x20, 0xC800, 0xC7A5, 0xB418, 0xC5C8, 0xC2B5, 0xB2C8,
      0xB2E4, 0x2E]"

text \<open>"Failed to fetch the page: \<open>e\<close>"\<close>

definition msg_fetch_failed :: "exn \<Rightarrow> str" where
  "msg_fetch_failed e =
     [0xD398, 0xC774, 0xC9C0, 0xB97C, 0x20, 0xAC00, 0xC838, 0xC624, 0xB294, 0x20, 0xB370, 0x20,
      0xC2E4, 0xD328, 0xD588, 0xC2B5, 0xB2C8, 0xB2E4, 0x3A, 0x20] @ message e"

text \<open>"An unknown error occurred: \<open>e\<close>"\<close>

definition msg_unknown_error :: "exn \<Rightarrow> str" where
  "msg_unknown_error e =
     [0xC54C, 0x20, 0xC218, 0x20, 0xC5C6, 0xB294, 0x20, 0xC624, 0xB958, 0xAC00, 0x20, 0xBC1C,
      0xC0DD, 0xD588, 0xC2B5, 0xB2C8, 0xB2E4, 0x3A, 0x20] @ message e"

text \<open>
  \<^verbatim>\<open>open(output_filename, "w")\<close>, once it has succeeded, and the two writes of the
  header: the file exists and holds the header. Writes to the open file are taken to
  succeed.
\<close>

definition open_and_write_header :: "str \<Rightarrow> state \<Rightarrow> state" where
  "open_and_write_header week_str s =
     (let output_filename = output_filename_of week_str;
          s = s\<lparr>files := (files s)(output_filename \<mapsto> [])\<rparr>;
          s = file_write output_filename (report_title week_str) s;
          s = file_write output_filename (report_source (target_url_of week_str)) s
      in s)"

text \<open>
  The body of the outer \<^verbatim>\<open>try\<close>. The \<^verbatim>\<open>return\<close> on an empty list of articles
  comes before the file is opened; \<^verbatim>\<open>open\<close> may raise.
\<close>

definition listing_and_report ::
    "world \<Rightarrow> client option \<Rightarrow> str \<Rightarrow> state \<Rightarrow> (exn + unit) \<times> state" where
  "listing_and_report w openai_client week_str s =
     (let target_url = target_url_of week_str;
          output_filename = output_filename_of week_str
      in case get_tree w target_url s of
           (Inl e, s) \<Rightarrow> (Inl e, s)
         | (Inr tree, s) \<Rightarrow>
             (let paper_articles = take num_papers_to_scrape (listing_articles tree)
              in if paper_articles = [] then (Inr (), py_print (msg_none_found week_str) s)
                 else
                   (let s = py_print (msg_found (length paper_articles)) s
                    in case open_error w output_filename of
                         Some e \<Rightarrow> (Inl e, s)
                       | None \<Rightarrow>
                           (let s = open_and_write_header week_str s;
                                s = process_articles w openai_client output_filename
                                      (length paper_articles) 0 paper_articles s
                            in (Inr (), py_print (msg_done output_filename) s)))))"

text \<open>
  The whole run. \<open>Inr ()\<close>: the function returns; \<open>Inl e\<close>: it raises \<open>e\<close> (only
  \<^verbatim>\<open>get_previous_week_info\<close>, called outside the \<^verbatim>\<open>try\<close>, can do that).
\<close>

definition scrape_and_translate_papers :: "world \<Rightarrow> state \<Rightarrow> (exn + unit) \<times> state" where
  "scrape_and_translate_papers w s =
     (case setup_api w s of
        (None, s) \<Rightarrow> (Inr (), s)
      | (Some c, s) \<Rightarrow>
          (case get_previous_week_info w of
             Inl e \<Rightarrow> (Inl e, s)
           | Inr (year, week) \<Rightarrow>
               (let week_str = week_str_of year week;
                    s = py_print (msg_fetching (target_url_of week_str)) s
                in case listing_and_report w (Some c) week_str s of
                     (Inr _, s) \<Rightarrow> (Inr (), s)
                   | (Inl e, s) \<Rightarrow>
                       if is_request_exception e then (Inr (), py_print (msg_fetch_failed e) s)
                       else (Inr (), py_print (msg_unknown_error e) s))))"

section \<open>Notions used to state the properties\<close>

text \<open>
  The ISO-8601 week of a date, in the standard's words: weeks start on Monday, a week
  belongs to the year its Thursday lies in, and the weeks of a year are numbered from 1.
  Day 1 is a Monday, so \<open>d - (d - 1) mod 7\<close> is the Monday of the week of \<open>d\<close>.
\<close>

definition is_iso8601_year_week :: "int \<Rightarrow> int \<Rightarrow> int \<Rightarrow> bool" where
  "is_iso8601_year_week d year week \<longleftrightarrow>
     (let thursday = d - (d - 1) mod 7 + 3;
          january1 = ymd2ord year 1 1
      in january1 \<le> thursday \<and> thursday < ymd2ord (year + 1) 1 1 \<and>
         week = (thursday - january1) div 7 + 1)"

text \<open>What the file \<open>f\<close> holds (nothing when it does not exist).\<close>

definition file_text :: "str \<Rightarrow> state \<Rightarrow> str" where
  "file_text f s = (case files s f of None \<Rightarrow> [] | Some t \<Rightarrow> t)"

text \<open>
  The text the processing of one entry appends to the report, and the texts of the
  entries of a list, in order.
\<close>

definition entry_text ::
    "world \<Rightarrow> client option \<Rightarrow> str \<Rightarrow> nat \<Rightarrow> nat \<Rightarrow> article \<Rightarrow> state \<Rightarrow> str" where
  "entry_text w openai_client f n_articles i art s =
     drop (length (file_text f s)) (file_text f (process_entry w openai_client f n_articles i art s))"

fun entry_texts ::
    "world \<Rightarrow> client option \<Rightarrow> str \<Rightarrow> nat \<Rightarrow> nat \<Rightarrow> article list \<Rightarrow> state \<Rightarrow> str list" where
  "entry_texts w openai_client f n_articles i [] s = []"
| "entry_texts w openai_client f n_articles i (art # arts) s =
     entry_text w openai_client f n_articles i art s #
     entry_texts w openai_client f n_articles (i + 1) arts
       (process_entry w openai_client f n_articles i art s)"

text \<open>\<^verbatim>\<open>--- {i+1}. \<close>: how the first line of an entry starts, with its 1-based rank.\<close>

definition rank_marker :: "nat \<Rightarrow> str" where
  "rank_marker i = ascii ''--- '' @ str_of_nat (i + 1) @ ascii ''. ''"

section \<open>Example inputs\<close>

text \<open>
  A listing page with three articles: one with a relative link whose detail page has an
  abstract, one with no heading, and one whose link is already an absolute URL (its
  detail request is refused). The translation endpoint fails twice on connectivity and
  then answers, and the client class is given the attribute the handler looks up. Today
  is 2027-01-08, so last week is ISO week 53 of 2026.
\<close>

definition example_key :: str where
  "example_key = ascii ''sk-example''"

definition paper_a :: article where
  "paper_a = \<lparr>h3s = [\<lparr>hrefs = [ascii ''/papers/2501.00001''], texts = [ascii '' Paper A '']\<rparr>]\<rparr>"

definition no_heading :: article where
  "no_heading = \<lparr>h3s = []\<rparr>"

definition absolute_link :: article where
  "absolute_link =
     \<lparr>h3s = [\<lparr>hrefs = [ascii ''https://arxiv.org/abs/2501.00003''], texts = [ascii ''Paper C'']\<rparr>]\<rparr>"

definition example_listing :: html_doc where
  "example_listing =
     \<lparr>listing_articles = [paper_a, no_heading, absolute_link], abstract_paragraphs = []\<rparr>"

definition example_detail :: html_doc where
  "example_detail =
     \<lparr>listing_articles = [], abstract_paragraphs = [ascii '' We study things. '']\<rparr>"

definition ok_response :: "html_doc \<Rightarrow> response" where
  "ok_response doc = \<lparr>status_code = 200, status_text = ascii ''OK'', parsed = Inr doc\<rparr>"

definition refused :: exn where
  "refused = Exn ReqConnectionError (ascii ''connection refused'')"

definition example_world :: world where
  "example_world =
     \<lparr>env_api_key = Some example_key,
      today = ymd2ord 2027 1 8,
      http = (\<lambda>n url.
        if url = target_url_of (ascii ''2026-W53'') then Inr (ok_response example_listing)
        else if url = base_url @ ascii ''/papers/2501.00001'' then Inr (ok_response example_detail)
        else Inl refused),
      chat = (\<lambda>n user.
        if n < 2 then Inl (Exn APIConnectionError (ascii ''Connection error.''))
        else Inr \<lparr>choices = [Some (ascii '' translated '')]\<rparr>),
      openai_has_api_connection_error = True,
      open_error = (\<lambda>f. None)\<rparr>"

definition initial_state :: state where
  "initial_state = \<lparr>console = [], slept = [], requested = [], api_log = [], files = (\<lambda>f. None)\<rparr>"

text \<open>
  The same with the client library as it is (no attribute \<^verbatim>\<open>APIConnectionError\<close> on
  the class): the endpoint that fails twice and then answers, an endpoint that is never
  reachable, and an endpoint that rejects every call with an error that is not of the
  connectivity class.
\<close>

definition actual_world :: world where
  "actual_world = example_world\<lparr>openai_has_api_connection_error := False\<rparr>"

definition offline_world :: world where
  "offline_world =
     actual_world\<lparr>chat := (\<lambda>n user.
        Inl (Exn APIConnectionError (ascii ''Connection error.'')))\<rparr>"

definition rejecting_world :: world where
  "rejecting_world =
     actual_world\<lparr>chat := (\<lambda>n user. Inl (Exn OtherError (ascii ''invalid api key'')))\<rparr>"

text \<open>
  Other variants: a week with no articles, a page with twelve articles, and an
  environment without the key.
\<close>

definition empty_week_world :: world where
  "empty_week_world =
     example_world\<lparr>http := (\<lambda>n url.
        Inr (ok_response \<lparr>listing_articles = [], abstract_paragraphs = []\<rparr>))\<rparr>"

definition crowded_world :: world where
  "crowded_world =
     example_world\<lparr>http := (\<lambda>n url.
        Inr (ok_response \<lparr>listing_articles = replicate 12 no_heading, abstract_paragraphs = []\<rparr>))\<rparr>"

definition no_key_world :: world where
  "no_key_world = example_world\<lparr>env_api_key := None\<rparr>"

definition example_file :: str where
  "example_file = output_filename_of (ascii ''2026-W53'')"

section \<open>Evaluating strings\<close>

lemma ascii_simps: "ascii [] = []" "ascii (c # cs) = of_char c # ascii cs"
  by (simp_all add: ascii_def)

lemma strip_hello: "strip (ascii ''Hello'') = ascii ''Hello''"
  by (simp add: strip_def isspace_def ascii_simps)

lemma strip_translated: "strip (ascii '' translated '') = ascii ''translated''"
  by (simp add: strip_def isspace_def ascii_simps)

lemma week_str_example: "week_str_of 2026 53 = ascii ''2026-W53''"
  by (simp add: week_str_of_def str_of_int_def format_02d_def ascii_simps)

section \<open>The translator\<close>

lemma first_choice_stripped_Inl [simp]: "first_choice_stripped (Inl e) = Inl e"
  by (simp add: first_choice_stripped_def)

lemma translate_attempts_success:
  "attempt < max_retries \<Longrightarrow>
   first_choice_stripped (chat w (length (api_log s)) (user_content text)) = Inr t \<Longrightarrow>
   translate_attempts w text attempt delay s =
     (Inr t, s\<lparr>api_log := api_log s @ [user_content text]\<rparr>)"
  by (subst translate_attempts.simps) (simp add: Let_def)

lemma translate_attempts_exhausted:
  "\<not> attempt < max_retries \<Longrightarrow>
   translate_attempts w text attempt delay s = (Inr msg_exhausted, s)"
  by (subst translate_attempts.simps) simp

text \<open>
  Without the attribute in the client library, any exception of the \<^verbatim>\<open>try\<close> body ends
  in an \<^verbatim>\<open>AttributeError\<close> that leaves the function.
\<close>

lemma translate_attempts_lookup_fails:
  "attempt < max_retries \<Longrightarrow>
   first_choice_stripped (chat w (length (api_log s)) (user_content text)) = Inl e \<Longrightarrow>
   \<not> openai_has_api_connection_error w \<Longrightarrow>
   translate_attempts w text attempt delay s =
     (Inl (Exn AttributeError msg_no_attribute), s\<lparr>api_log := api_log s @ [user_content text]\<rparr>)"
  by (subst translate_attempts.simps) (simp add: Let_def)

lemma translate_attempts_other_error:
  "openai_has_api_connection_error w \<Longrightarrow>
   attempt < max_retries \<Longrightarrow>
   first_choice_stripped (chat w (length (api_log s)) (user_content text)) = Inl e \<Longrightarrow>
   \<not> is_connectivity e \<Longrightarrow>
   translate_attempts w text attempt delay s =
     (Inr (msg_unexpected e), s\<lparr>api_log := api_log s @ [user_content text]\<rparr>)"
  by (subst translate_attempts.simps) (simp add: Let_def)

lemma translate_attempts_retry:
  "openai_has_api_connection_error w \<Longrightarrow>
   attempt < max_retries \<Longrightarrow>
   first_choice_stripped (chat w (length (api_log s)) (user_content text)) = Inl e \<Longrightarrow>
   is_connectivity e \<Longrightarrow>
   translate_attempts w text attempt delay s =
     translate_attempts w text (attempt + 1) (delay * 2)
       (sleep delay (py_print (msg_retry attempt delay)
          (s\<lparr>api_log := api_log s @ [user_content text]\<rparr>)))"
  by (subst translate_attempts.simps) (simp add: Let_def)

text \<open>\<open>k\<close> connectivity failures in a row: \<open>k\<close> calls, \<open>k\<close> sleeps, the delay doubled each time.\<close>

lemma translate_attempts_connectivity_prefix:
  "openai_has_api_connection_error w \<Longrightarrow>
   attempt + k \<le> max_retries \<Longrightarrow>
   (\<forall>j<k. \<exists>e. first_choice_stripped (chat w (length (api_log s) + j) (user_content text)) = Inl e
        \<and> is_connectivity e) \<Longrightarrow>
   translate_attempts w text attempt delay s =
   translate_attempts w text (attempt + k) (delay * 2 ^ k)
     (s\<lparr>console := console s @ map (\<lambda>j. msg_retry (attempt + j) (delay * 2 ^ j)) [0..<k],
        slept := slept s @ map (\<lambda>j. delay * 2 ^ j) [0..<k],
        api_log := api_log s @ replicate k (user_content text)\<rparr>)"
proof (induction k arbitrary: attempt delay s)
  case 0
  then show ?case by simp
next
  case (Suc k)
  from Suc.prems(3) obtain e where
    e: "first_choice_stripped (chat w (length (api_log s)) (user_content text)) = Inl e"
       "is_connectivity e"
    by force
  let ?s1 = "sleep delay (py_print (msg_retry attempt delay)
               (s\<lparr>api_log := api_log s @ [user_content text]\<rparr>))"
  have lt: "attempt < max_retries" using Suc.prems(2) by simp
  have step: "translate_attempts w text attempt delay s =
              translate_attempts w text (attempt + 1) (delay * 2) ?s1"
    using Suc.prems(1) lt e by (rule translate_attempts_retry)
  have rest: "\<forall>j<k. \<exists>e. first_choice_stripped
                 (chat w (length (api_log ?s1) + j) (user_content text)) = Inl e
               \<and> is_connectivity e"
  proof (intro allI impI)
    fix j assume "j < k"
    then have "Suc j < Suc k" by simp
    from Suc.prems(3)[rule_format, OF this] show "\<exists>e. first_choice_stripped
                 (chat w (length (api_log ?s1) + j) (user_content text)) = Inl e
               \<and> is_connectivity e"
      by (simp add: sleep_def py_print_def)
  qed
  have "attempt + 1 + k \<le> max_retries" using Suc.prems(2) by simp
  from Suc.IH[OF Suc.prems(1) this rest, of "delay * 2"] step
  show ?case
    by (simp add: sleep_def py_print_def map_upt_Suc del: upt_Suc replicate_Suc
          add: replicate_Suc [symmetric] replicate_append_same mult.assoc)
qed

subsection \<open>What the handlers were written to do\<close>

text \<open>
  The lemmas of this subsection are about a client class that has the attribute
  \<^verbatim>\<open>APIConnectionError\<close>. They show that the loop and its handlers, the lookup apart,
  do what the docstring says.

  An exception that is not of the connectivity class, after \<open>k\<close> attempts that failed
  on connectivity: the message that embeds the error is returned, after \<open>k + 1\<close> calls
  and the \<open>k\<close> sleeps that followed the connectivity failures.
\<close>

lemma other_exception_with_attribute:
  assumes "openai_has_api_connection_error w"
    and "text \<noteq> []" and "strip text \<noteq> []" and "client = Some c"
    and "k < max_retries"
    and "\<forall>j<k. \<exists>e'. chat w (length (api_log s) + j) (user_content text) = Inl e'
            \<and> is_connectivity e'"
    and "first_choice_stripped (chat w (length (api_log s) + k) (user_content text)) = Inl e"
    and "\<not> is_connectivity e"
  shows "translate_text_with_openai w client text s =
           (Inr (msg_unexpected e),
            s\<lparr>console := console s @ map (\<lambda>j. msg_retry j (2 * 2 ^ j)) [0..<k],
              slept := slept s @ map (\<lambda>j. 2 * 2 ^ j) [0..<k],
              api_log := api_log s @ replicate (Suc k) (user_content text)\<rparr>)"
proof -
  have pre: "\<forall>j<k. \<exists>e'. first_choice_stripped
               (chat w (length (api_log s) + j) (user_content text)) = Inl e' \<and> is_connectivity e'"
    using assms(6) by fastforce
  have "translate_text_with_openai w client text s = translate_attempts w text 0 2 s"
    using assms(2-4) by (simp add: translate_text_with_openai_def)
  also have "\<dots> = translate_attempts w text (0 + k) (2 * 2 ^ k)
     (s\<lparr>console := console s @ map (\<lambda>j. msg_retry (0 + j) (2 * 2 ^ j)) [0..<k],
        slept := slept s @ map (\<lambda>j. 2 * 2 ^ j) [0..<k],
        api_log := api_log s @ replicate k (user_content text)\<rparr>)"
    using assms(1,5) pre by (intro translate_attempts_connectivity_prefix) simp_all
  also have "\<dots> = (Inr (msg_unexpected e),
            s\<lparr>console := console s @ map (\<lambda>j. msg_retry j (2 * 2 ^ j)) [0..<k],
              slept := slept s @ map (\<lambda>j. 2 * 2 ^ j) [0..<k],
              api_log := api_log s @ replicate (Suc k) (user_content text)\<rparr>)"
    using assms(1,5,7,8)
    by (subst translate_attempts_other_error [where e = e])
       (simp_all add: replicate_append_same)
  finally show ?thesis .
qed

text \<open>
  Connectivity failures on attempts 1 and 2 and a success on attempt 3: the trimmed
  translation, after sleeps of 2 and then 4 seconds and three calls.
\<close>

lemma two_failures_then_success_with_attribute:
  assumes "openai_has_api_connection_error w"
    and "text \<noteq> []" and "strip text \<noteq> []" and "client = Some c"
    and "chat w (length (api_log s)) (user_content text) = Inl e1" and "is_connectivity e1"
    and "chat w (length (api_log s) + 1) (user_content text) = Inl e2" and "is_connectivity e2"
    and "chat w (length (api_log s) + 2) (user_content text) = Inr r"
    and "choices r = Some content # others"
  shows "translate_text_with_openai w client text s =
           (Inr (strip content),
            s\<lparr>console := console s @ [msg_retry 0 2, msg_retry 1 4],
              slept := slept s @ [2, 4],
              api_log := api_log s @ [user_content text, user_content text, user_content text]\<rparr>)"
proof -
  have pre: "\<forall>j<2. \<exists>e'. first_choice_stripped
               (chat w (length (api_log s) + j) (user_content text)) = Inl e' \<and> is_connectivity e'"
  proof (intro allI impI)
    fix j :: nat assume "j < 2"
    then have "j = 0 \<or> j = 1" by auto
    then show "\<exists>e'. first_choice_stripped
               (chat w (length (api_log s) + j) (user_content text)) = Inl e' \<and> is_connectivity e'"
      using assms(5-8) by auto
  qed
  have ok: "first_choice_stripped (chat w (length (api_log s) + 2) (user_content text))
              = Inr (strip content)"
    using assms(9,10) by (simp add: first_choice_stripped_def)
  have "translate_text_with_openai w client text s = translate_attempts w text 0 2 s"
    using assms(2-4) by (simp add: translate_text_with_openai_def)
  also have "\<dots> = translate_attempts w text (0 + 2) (2 * 2 ^ 2)
     (s\<lparr>console := console s @ map (\<lambda>j. msg_retry (0 + j) (2 * 2 ^ j)) [0..<2],
        slept := slept s @ map (\<lambda>j. 2 * 2 ^ j) [0..<2],
        api_log := api_log s @ replicate 2 (user_content text)\<rparr>)"
    using assms(1) pre
    by (intro translate_attempts_connectivity_prefix) (simp_all add: max_retries_def)
  also have "\<dots> = (Inr (strip content),
            s\<lparr>console := console s @ [msg_retry 0 2, msg_retry 1 4],
              slept := slept s @ [2, 4],
              api_log := api_log s @ [user_content text, user_content text, user_content text]\<rparr>)"
  proof -
    have two: "[0..<2] = [0, Suc 0]"
      "replicate 2 (user_content text) = [user_content text, user_content text]"
      by (simp_all add: upt_rec numeral_2_eq_2)
    show ?thesis
      using ok
      by (subst translate_attempts_success [where t = "strip content"])
         (simp_all add: max_retries_def two)
  qed
  finally show ?thesis .
qed

lemma translate_attempts_result:
  assumes "openai_has_api_connection_error w"
  shows "\<exists>r. fst (translate_attempts w text attempt delay s) = Inr r \<and>
     (r = msg_exhausted \<or>
      (\<exists>n e. first_choice_stripped (chat w n (user_content text)) = Inl e \<and>
         \<not> is_connectivity e \<and> r = msg_unexpected e) \<or>
      (\<exists>n resp content others. chat w n (user_content text) = Inr resp \<and>
         choices resp = Some content # others \<and> r = strip content))"
  using assms
proof (induction w "text" attempt delay s rule: translate_attempts.induct)
  case (1 w tx attempt delay s)
  note lib = "1.prems"
  show ?case
  proof (cases "attempt < max_retries")
    case False
    then show ?thesis by (simp add: translate_attempts_exhausted)
  next
    case lt: True
    show ?thesis
    proof (cases "first_choice_stripped (chat w (length (api_log s)) (user_content tx))")
      case (Inr t)
      then obtain resp content others where
        "chat w (length (api_log s)) (user_content tx) = Inr resp"
        "choices resp = Some content # others" "t = strip content"
        by (auto simp: first_choice_stripped_def split: sum.splits list.splits option.splits)
      with lt Inr have "fst (translate_attempts w tx attempt delay s) = Inr (strip content) \<and>
          chat w (length (api_log s)) (user_content tx) = Inr resp \<and>
          choices resp = Some content # others"
        by (simp add: translate_attempts_success)
      then show ?thesis by blast
    next
      case (Inl e)
      show ?thesis
      proof (cases "is_connectivity e")
        case False
        with lib lt Inl have
          "fst (translate_attempts w tx attempt delay s) = Inr (msg_unexpected e) \<and>
           first_choice_stripped (chat w (length (api_log s)) (user_content tx)) = Inl e \<and>
           \<not> is_connectivity e"
          by (simp add: translate_attempts_other_error)
        then show ?thesis by blast
      next
        case True
        have "translate_attempts w tx attempt delay s =
              translate_attempts w tx (attempt + 1) (delay * 2)
                (sleep delay (py_print (msg_retry attempt delay)
                   (s\<lparr>api_log := api_log s @ [user_content tx]\<rparr>)))"
          using lib lt Inl True by (rule translate_attempts_retry)
        moreover have "\<not> \<not> openai_has_api_connection_error w" using lib by simp
        ultimately show ?thesis
          using "1.IH"[OF lt refl refl Inl _ True lib] by simp
      qed
    qed
  qed
qed

text \<open>
  Whatever the client, the text and the endpoint do, a string is returned: one of the
  three fixed messages, the message embedding an exception of the \<^verbatim>\<open>try\<close> body that
  is not of the connectivity class, or the trimmed content of a completion.
\<close>

lemma returns_a_string_with_attribute:
  assumes "openai_has_api_connection_error w"
  shows "\<exists>r. fst (translate_text_with_openai w client text s) = Inr r \<and>
     (r = msg_no_text \<or> r = msg_no_client \<or> r = msg_exhausted \<or>
      (\<exists>n e. first_choice_stripped (chat w n (user_content text)) = Inl e \<and>
         \<not> is_connectivity e \<and> r = msg_unexpected e) \<or>
      (\<exists>n resp content others. chat w n (user_content text) = Inr resp \<and>
         choices resp = Some content # others \<and> r = strip content))"
proof (cases "text = [] \<or> strip text = []")
  case True
  then show ?thesis by (simp add: translate_text_with_openai_def)
next
  case nonblank: False
  show ?thesis
  proof (cases client)
    case None
    with nonblank show ?thesis by (simp add: translate_text_with_openai_def)
  next
    case (Some c)
    with nonblank have "translate_text_with_openai w client text s =
        translate_attempts w text 0 2 s"
      by (simp add: translate_text_with_openai_def)
    with translate_attempts_result [OF assms, of "text" 0 2 s] show ?thesis
      by (simp only:) blast
  qed
qed

subsection \<open>What the program does\<close>

text \<open>
  The client class has no attribute \<^verbatim>\<open>APIConnectionError\<close>, so the first exception of
  the \<^verbatim>\<open>try\<close> body makes the translator raise \<^verbatim>\<open>AttributeError\<close>: there is no
  retry, no sleep and no message.
\<close>

lemma translate_raises_without_library_attribute:
  assumes "\<not> openai_has_api_connection_error w"
    and "text \<noteq> []" and "strip text \<noteq> []" and "client = Some c"
    and "first_choice_stripped (chat w (length (api_log s)) (user_content text)) = Inl e"
  shows "translate_text_with_openai w client text s =
           (Inl (Exn AttributeError msg_no_attribute),
            s\<lparr>api_log := api_log s @ [user_content text]\<rparr>)"
proof -
  have "translate_text_with_openai w client text s = translate_attempts w text 0 2 s"
    using assms(2-4) by (simp add: translate_text_with_openai_def)
  also have "\<dots> = (Inl (Exn AttributeError msg_no_attribute),
            s\<lparr>api_log := api_log s @ [user_content text]\<rparr>)"
    using assms(1,5)
    by (intro translate_attempts_lookup_fails [where e = e]) (simp_all add: max_retries_def)
  finally show ?thesis .
qed

text \<open>
  C3 fails on the code. The endpoint fails on connectivity at calls 1 and 2 and answers
  at call 3; the claim has the trimmed translation returned after sleeps of 2 and 4
  seconds. The program raises \<^verbatim>\<open>AttributeError\<close> at the first failure: one call, no
  sleep, no translation.
\<close>

theorem first_connectivity_failure_raises:
  "chat actual_world 0 (user_content (ascii ''Hello'')) =
     Inl (Exn APIConnectionError (ascii ''Connection error.'')) \<and>
   chat actual_world 1 (user_content (ascii ''Hello'')) =
     Inl (Exn APIConnectionError (ascii ''Connection error.'')) \<and>
   chat actual_world 2 (user_content (ascii ''Hello'')) =
     Inr \<lparr>choices = [Some (ascii '' translated '')]\<rparr> \<and>
   translate_text_with_openai actual_world (Some (OpenAI example_key)) (ascii ''Hello'')
     initial_state =
   (Inl (Exn AttributeError msg_no_attribute),
    initial_state\<lparr>api_log := [user_content (ascii ''Hello'')]\<rparr>) \<and>
   slept (snd (translate_text_with_openai actual_world (Some (OpenAI example_key))
     (ascii ''Hello'') initial_state)) = []"
proof -
  have lib: "\<not> openai_has_api_connection_error actual_world"
    by (simp add: actual_world_def)
  have nonblank: "ascii ''Hello'' \<noteq> []" "strip (ascii ''Hello'') \<noteq> []"
    by (simp_all add: strip_hello) (simp_all add: ascii_simps)
  have raised: "first_choice_stripped (chat actual_world (length (api_log initial_state))
        (user_content (ascii ''Hello''))) = Inl (Exn APIConnectionError (ascii ''Connection error.''))"
    by (simp add: actual_world_def example_world_def initial_state_def)
  have calls: "chat actual_world 0 (user_content (ascii ''Hello'')) =
       Inl (Exn APIConnectionError (ascii ''Connection error.''))"
    "chat actual_world 1 (user_content (ascii ''Hello'')) =
       Inl (Exn APIConnectionError (ascii ''Connection error.''))"
    "chat actual_world 2 (user_content (ascii ''Hello'')) =
       Inr \<lparr>choices = [Some (ascii '' translated '')]\<rparr>"
    by (simp_all add: actual_world_def example_world_def)
  show ?thesis
    using translate_raises_without_library_attribute [OF lib nonblank refl raised] calls
    by (simp add: initial_state_def)
qed

text \<open>
  C7 fails on the code. The endpoint rejects the first call with an error that is not of
  the connectivity class; the claim has the message embedding that error returned. The
  program raises \<^verbatim>\<open>AttributeError\<close>: the handler that would build the message is never
  reached.
\<close>

theorem other_exception_raises:
  "first_choice_stripped (chat rejecting_world 0 (user_content (ascii ''Hello''))) =
     Inl (Exn OtherError (ascii ''invalid api key'')) \<and>
   \<not> is_connectivity (Exn OtherError (ascii ''invalid api key'')) \<and>
   translate_text_with_openai rejecting_world (Some (OpenAI example_key)) (ascii ''Hello'')
     initial_state =
   (Inl (Exn AttributeError msg_no_attribute),
    initial_state\<lparr>api_log := [user_content (ascii ''Hello'')]\<rparr>) \<and>
   fst (translate_text_with_openai rejecting_world (Some (OpenAI example_key)) (ascii ''Hello'')
     initial_state) \<noteq> Inr (msg_unexpected (Exn OtherError (ascii ''invalid api key'')))"
proof -
  have lib: "\<not> openai_has_api_connection_error rejecting_world"
    by (simp add: rejecting_world_def actual_world_def)
  have nonblank: "ascii ''Hello'' \<noteq> []" "strip (ascii ''Hello'') \<noteq> []"
    by (simp_all add: strip_hello) (simp_all add: ascii_simps)
  have raised: "first_choice_stripped (chat rejecting_world (length (api_log initial_state))
        (user_content (ascii ''Hello''))) = Inl (Exn OtherError (ascii ''invalid api key''))"
    by (simp add: rejecting_world_def initial_state_def)
  have first: "first_choice_stripped (chat rejecting_world 0 (user_content (ascii ''Hello''))) =
     Inl (Exn OtherError (ascii ''invalid api key''))"
    by (simp add: rejecting_world_def)
  have other: "\<not> is_connectivity (Exn OtherError (ascii ''invalid api key''))"
    by (simp add: is_connectivity_def)
  show ?thesis
    using translate_raises_without_library_attribute [OF lib nonblank refl raised] first other
    by (simp add: initial_state_def)
qed

text \<open>
  C2 fails on the code. With an endpoint that cannot be reached the claim has a string
  returned (here the message after three attempts); the program raises
  \<^verbatim>\<open>AttributeError\<close> past the translator, after one call.
\<close>

theorem translator_raises_past_its_boundary:
  "fst (translate_text_with_openai offline_world (Some (OpenAI example_key)) (ascii ''Hello'')
     initial_state) = Inl (Exn AttributeError msg_no_attribute) \<and>
   fst (translate_text_with_openai offline_world (Some (OpenAI example_key)) (ascii ''Hello'')
     initial_state) \<noteq> Inr msg_exhausted \<and>
   api_log (snd (translate_text_with_openai offline_world (Some (OpenAI example_key))
     (ascii ''Hello'') initial_state)) = [user_content (ascii ''Hello'')]"
proof -
  have lib: "\<not> openai_has_api_connection_error offline_world"
    by (simp add: offline_world_def actual_world_def)
  have nonblank: "ascii ''Hello'' \<noteq> []" "strip (ascii ''Hello'') \<noteq> []"
    by (simp_all add: strip_hello) (simp_all add: ascii_simps)
  have raised: "first_choice_stripped (chat offline_world (length (api_log initial_state))
        (user_content (ascii ''Hello''))) = Inl (Exn APIConnectionError (ascii ''Connection error.''))"
    by (simp add: offline_world_def initial_state_def)
  show ?thesis
    using translate_raises_without_library_attribute [OF lib nonblank refl raised]
    by (simp add: initial_state_def)
qed

section \<open>The week resolver\<close>

lemma div_pred:
  fixes y k :: int
  assumes "0 < k"
  shows "(y - 1) div k = (if y mod k = 0 then y div k - 1 else y div k)"
proof (cases "y mod k = 0")
  case True
  then have "y - 1 = k * (y div k - 1) + (k - 1)"
    using mult_div_mod_eq [of k y] by (simp add: algebra_simps)
  then have "(y - 1) div k = y div k - 1"
    by (rule int_div_pos_eq) (use assms in simp_all)
  with True show ?thesis by simp
next
  case False
  have "0 \<le> y mod k" "y mod k < k" using assms by simp_all
  with False have r: "0 \<le> y mod k - 1" "y mod k - 1 < k" by linarith+
  have "y - 1 = k * (y div k) + (y mod k - 1)"
    using mult_div_mod_eq [of k y] by simp
  then have "(y - 1) div k = y div k"
    using r by (rule int_div_pos_eq)
  with False show ?thesis by simp
qed

lemma mod_100_imp_mod_4: "(y::int) mod 100 = 0 \<Longrightarrow> y mod 4 = 0"
  using mod_mod_cancel [of 4 100 y] by simp

lemma mod_400_imp_mod_100: "(y::int) mod 400 = 0 \<Longrightarrow> y mod 100 = 0"
  using mod_mod_cancel [of 100 400 y] by simp

lemma days_before_year_step:
  "days_before_year (y + 1) = days_before_year y + (if is_leap y then 366 else 365)"
proof -
  have next_year: "days_before_year (y + 1) = y * 365 + y div 4 - y div 100 + y div 400"
    by (simp add: days_before_year_def)
  have this_year: "days_before_year y =
      (y - 1) * 365 + (y - 1) div 4 - (y - 1) div 100 + (y - 1) div 400"
    by (simp add: days_before_year_def Let_def)
  have d4: "(y - 1) div 4 = (if y mod 4 = 0 then y div 4 - 1 else y div 4)"
    by (rule div_pred) simp
  have d100: "(y - 1) div 100 = (if y mod 100 = 0 then y div 100 - 1 else y div 100)"
    by (rule div_pred) simp
  have d400: "(y - 1) div 400 = (if y mod 400 = 0 then y div 400 - 1 else y div 400)"
    by (rule div_pred) simp
  consider (c400) "y mod 400 = 0" "y mod 100 = 0" "y mod 4 = 0"
    | (c100) "y mod 400 \<noteq> 0" "y mod 100 = 0" "y mod 4 = 0"
    | (c4) "y mod 400 \<noteq> 0" "y mod 100 \<noteq> 0" "y mod 4 = 0"
    | (c1) "y mod 400 \<noteq> 0" "y mod 100 \<noteq> 0" "y mod 4 \<noteq> 0"
    using mod_100_imp_mod_4 [of y] mod_400_imp_mod_100 [of y] by argo
  then show ?thesis
  proof cases
    case c400
    then show ?thesis unfolding next_year this_year d4 d100 d400 is_leap_def by simp
  next
    case c100
    then show ?thesis unfolding next_year this_year d4 d100 d400 is_leap_def by simp
  next
    case c4
    then show ?thesis unfolding next_year this_year d4 d100 d400 is_leap_def by simp
  next
    case c1
    then show ?thesis unfolding next_year this_year d4 d100 d400 is_leap_def by simp
  qed
qed

lemma days_before_year_decomp:
  fixes a b c e :: int
  assumes "0 \<le> b" "b \<le> 3" "0 \<le> c" "c \<le> 24" "0 \<le> e" "e \<le> 3"
  shows "days_before_year (400 * a + 100 * b + 4 * c + e + 1) =
           146097 * a + 36524 * b + 1461 * c + 365 * e"
proof -
  let ?y = "400 * a + 100 * b + 4 * c + e"
  have "?y = 4 * (100 * a + 25 * b + c) + e" by simp
  then have d4: "?y div 4 = 100 * a + 25 * b + c"
    by (rule int_div_pos_eq) (use assms in simp_all)
  have "?y = 100 * (4 * a + b) + (4 * c + e)" by simp
  then have d100: "?y div 100 = 4 * a + b"
    by (rule int_div_pos_eq) (use assms in simp_all)
  have "?y = 400 * a + (100 * b + 4 * c + e)" by simp
  then have d400: "?y div 400 = a"
    by (rule int_div_pos_eq) (use assms in simp_all)
  have "days_before_year (?y + 1) = ?y * 365 + ?y div 4 - ?y div 100 + ?y div 400"
    unfolding days_before_year_def Let_def by (simp only: add_diff_cancel_right')
  then show ?thesis unfolding d4 d100 d400 by simp
qed

lemma days_before_year_next:
  "days_before_year y + 365 \<le> days_before_year (y + 1)"
  "is_leap y \<Longrightarrow> days_before_year (y + 1) = days_before_year y + 366"
  using days_before_year_step [of y] by (simp_all split: if_splits)

lemma is_leap_fourth_year: fixes a c b :: int
  assumes "0 \<le> c" "c \<le> 23"
  shows "is_leap (400 * a + 100 * b + 4 * c + 3 + 1)"
proof -
  have e4: "400 * a + 100 * b + 4 * c + 3 + 1 = 4 * (100 * a + 25 * b + c + 1)" by simp
  have e100: "400 * a + 100 * b + 4 * c + 3 + 1 = 100 * (4 * a + b) + (4 * c + 4)" by simp
  have m4: "(400 * a + 100 * b + 4 * c + 3 + 1) mod 4 = 0" unfolding e4 by simp
  have "(400 * a + 100 * b + 4 * c + 3 + 1) mod 100 = (4 * c + 4) mod 100"
    unfolding e100 by (simp only: mod_mult_self4)
  also have "\<dots> = 4 * c + 4" using assms by simp
  finally have m100: "(400 * a + 100 * b + 4 * c + 3 + 1) mod 100 \<noteq> 0" using assms by simp
  show ?thesis unfolding is_leap_def using m4 m100 by blast
qed

lemma is_leap_400th_year: fixes a :: int
  shows "is_leap (400 * a + 100 * 3 + 4 * 24 + 3 + 1)"
proof -
  have e: "400 * a + 100 * 3 + 4 * 24 + 3 + 1 = 400 * (a + 1)" by simp
  have e4: "400 * a + 100 * 3 + 4 * 24 + 3 + 1 = 4 * (100 * (a + 1))" by simp
  have "(400 * a + 100 * 3 + 4 * 24 + 3 + 1) mod 400 = 0" unfolding e by simp
  moreover have "(400 * a + 100 * 3 + 4 * 24 + 3 + 1) mod 4 = 0" unfolding e4 by simp
  ultimately show ?thesis unfolding is_leap_def by blast
qed

lemma ord2year_bounds:
  "days_before_year (ord2year n) < n \<and> n \<le> days_before_year (ord2year n + 1)"
proof -
  define a where "a = (n - 1) div 146097"
  define r where "r = (n - 1) mod 146097"
  define b where "b = r div 36524"
  define r2 where "r2 = r mod 36524"
  define c where "c = r2 div 1461"
  define r3 where "r3 = r2 mod 1461"
  define e where "e = r3 div 365"
  define r4 where "r4 = r3 mod 365"
  have n: "n = 146097 * a + r + 1" and r: "0 \<le> r" "r < 146097"
    by (simp_all add: a_def r_def)
  have rb: "r = 36524 * b + r2" and r2: "0 \<le> r2" "r2 < 36524"
    by (simp_all add: b_def r2_def)
  have rc: "r2 = 1461 * c + r3" and r3: "0 \<le> r3" "r3 < 1461"
    by (simp_all add: c_def r3_def)
  have re: "r3 = 365 * e + r4" and r4: "0 \<le> r4" "r4 < 365"
    by (simp_all add: e_def r4_def)
  have b: "0 \<le> b" "b \<le> 4" using r rb r2 by linarith+
  have c: "0 \<le> c" "c \<le> 24" using r2 rc r3 by linarith+
  have e: "0 \<le> e" "e \<le> 4" using r3 re r4 by linarith+
  have "ord2year n =
      (if e = 4 \<or> b = 4 then a * 400 + 1 + b * 100 + c * 4 + e - 1
       else a * 400 + 1 + b * 100 + c * 4 + e)"
    unfolding ord2year_def Let_def a_def r_def b_def r2_def c_def r3_def e_def by (rule refl)
  then have year: "ord2year n =
      (if e = 4 \<or> b = 4 then 400 * a + 100 * b + 4 * c + e
       else 400 * a + 100 * b + 4 * c + e + 1)"
    by (simp add: algebra_simps)
  consider (b4) "b = 4" | (e4) "b \<le> 3" "e = 4" | (plain) "b \<le> 3" "e \<le> 3"
    using b e by linarith
  then show ?thesis
  proof cases
    case b4
    then have z: "r2 = 0" "c = 0" "e = 0" "r4 = 0" using r rb r2 rc r3 re r4 c e by linarith+
    have y: "ord2year n = 400 * a + 100 * 3 + 4 * 24 + 3 + 1" using year b4 z by simp
    have d: "days_before_year (ord2year n) = 146097 * a + 36524 * 3 + 1461 * 24 + 365 * 3"
      unfolding y by (rule days_before_year_decomp) simp_all
    have "is_leap (ord2year n)" unfolding y by (rule is_leap_400th_year)
    then have "days_before_year (ord2year n + 1) = days_before_year (ord2year n) + 366"
      by (rule days_before_year_next)
    then show ?thesis using d n rb rc re z b4 by simp
  next
    case e4
    then have z: "r4 = 0" "c \<le> 23" using r2 rc r3 re r4 c by linarith+
    have y: "ord2year n = 400 * a + 100 * b + 4 * c + 3 + 1" using year e4 by simp
    have d: "days_before_year (ord2year n) = 146097 * a + 36524 * b + 1461 * c + 365 * 3"
      unfolding y using b c e4 by (intro days_before_year_decomp) simp_all
    have "is_leap (ord2year n)" unfolding y using c z by (intro is_leap_fourth_year)
    then have "days_before_year (ord2year n + 1) = days_before_year (ord2year n) + 366"
      by (rule days_before_year_next)
    then show ?thesis using d n rb rc re z e4 by simp
  next
    case plain
    have y: "ord2year n = 400 * a + 100 * b + 4 * c + e + 1" using year plain by auto
    have d: "days_before_year (ord2year n) = 146097 * a + 36524 * b + 1461 * c + 365 * e"
      unfolding y using b c e plain by (intro days_before_year_decomp) simp_all
    show ?thesis using d days_before_year_next(1) [of "ord2year n"] n rb rc re r4 by linarith
  qed
qed

lemma ymd2ord_january1: "ymd2ord year 1 1 = days_before_year year + 1"
  by (simp add: ymd2ord_def days_before_month_def)

lemma week1_monday_arith:
  fixes x :: int
  shows "\<exists>j. (let firstday = x + 1; firstweekday = (firstday + 6) mod 7;
               week1monday = firstday - firstweekday
           in if firstweekday > 3 then week1monday + 7 else week1monday) = 7 * j + 1"
    and "x - 2 \<le> (let firstday = x + 1; firstweekday = (firstday + 6) mod 7;
               week1monday = firstday - firstweekday
           in if firstweekday > 3 then week1monday + 7 else week1monday)"
    and "(let firstday = x + 1; firstweekday = (firstday + 6) mod 7;
               week1monday = firstday - firstweekday
           in if firstweekday > 3 then week1monday + 7 else week1monday) \<le> x + 4"
  unfolding Let_def by presburger+

lemma isoweek1monday_form:
  obtains j where "isoweek1monday year = 7 * j + 1"
    and "days_before_year year - 2 \<le> 7 * j + 1" and "7 * j + 1 \<le> days_before_year year + 4"
proof -
  have eq: "isoweek1monday year =
      (let firstday = days_before_year year + 1; firstweekday = (firstday + 6) mod 7;
           week1monday = firstday - firstweekday
       in if firstweekday > 3 then week1monday + 7 else week1monday)"
    by (simp only: isoweek1monday_def ymd2ord_january1)
  from week1_monday_arith(1) [of "days_before_year year"]
  obtain j where j: "isoweek1monday year = 7 * j + 1" unfolding eq by blast
  have "days_before_year year - 2 \<le> isoweek1monday year"
    "isoweek1monday year \<le> days_before_year year + 4"
    unfolding eq by (rule week1_monday_arith)+
  with j that show thesis by simp
qed

lemma year_length:
  "days_before_year y + 365 \<le> days_before_year (y + 1)"
  "days_before_year (y + 1) \<le> days_before_year y + 366"
  using days_before_year_step [of y] by (simp_all split: if_splits)

lemma thursday_week_number:
  fixes k j x :: int
  assumes "x - 2 \<le> 7 * j + 1" "7 * j + 1 \<le> x + 4"
  shows "(7 * k + 4 - (x + 1)) div 7 = k - j"
proof -
  have "7 * k + 4 - (x + 1) = 7 * (k - j) + (7 * j + 1 - x + 2)" by simp
  then show ?thesis by (rule int_div_pos_eq) (use assms in simp_all)
qed

lemma isocalendar_iso8601:
  "is_iso8601_year_week n (fst (isocalendar n)) (fst (snd (isocalendar n)))"
proof -
  define Y where "Y = ord2year n"
  define k where "k = (n - 1) div 7"
  define d where "d = (n - 1) mod 7"
  have n: "n = 7 * k + 1 + d" and d: "0 \<le> d" "d \<le> 6"
    by (simp_all add: k_def d_def)
  have thursday: "n - (n - 1) mod 7 + 3 = 7 * k + 4"
    unfolding d_def [symmetric] using n by linarith
  have this_year: "days_before_year Y < n" "n \<le> days_before_year (Y + 1)"
    using ord2year_bounds [of n] by (simp_all add: Y_def)
  note len = year_length [of Y] year_length [of "Y + 1"]
  have len_prev: "days_before_year (Y - 1) + 365 \<le> days_before_year Y"
    "days_before_year Y \<le> days_before_year (Y - 1) + 366"
    using year_length [of "Y - 1"] by simp_all
  obtain jP where jP: "isoweek1monday (Y - 1) = 7 * jP + 1"
    "days_before_year (Y - 1) - 2 \<le> 7 * jP + 1" "7 * jP + 1 \<le> days_before_year (Y - 1) + 4"
    by (rule isoweek1monday_form)
  obtain jL where jL: "isoweek1monday Y = 7 * jL + 1"
    "days_before_year Y - 2 \<le> 7 * jL + 1" "7 * jL + 1 \<le> days_before_year Y + 4"
    by (rule isoweek1monday_form)
  obtain jH where jH: "isoweek1monday (Y + 1) = 7 * jH + 1"
    "days_before_year (Y + 1) - 2 \<le> 7 * jH + 1" "7 * jH + 1 \<le> days_before_year (Y + 1) + 4"
    by (rule isoweek1monday_form)
  have "n - isoweek1monday Y = 7 * (k - jL) + d" using n jL(1) by simp
  then have week: "(n - isoweek1monday Y) div 7 = k - jL"
    by (rule int_div_pos_eq) (use d in simp_all)
  have "n - isoweek1monday (Y - 1) = 7 * (k - jP) + d" using n jP(1) by simp
  then have week_prev: "(n - isoweek1monday (Y - 1)) div 7 = k - jP"
    by (rule int_div_pos_eq) (use d in simp_all)
  consider (prev) "k - jL < 0"
    | (nxt) "\<not> k - jL < 0" "k - jL \<ge> 52 \<and> n \<ge> isoweek1monday (Y + 1)"
    | (same) "\<not> k - jL < 0" "\<not> (k - jL \<ge> 52 \<and> n \<ge> isoweek1monday (Y + 1))"
    by blast
  then show ?thesis
  proof cases
    case prev
    then have res: "fst (isocalendar n) = Y - 1" "fst (snd (isocalendar n)) = k - jP + 1"
      by (simp_all add: isocalendar_def Let_def Y_def [symmetric] week week_prev)
    have "days_before_year (Y - 1) + 1 \<le> 7 * k + 4"
      using n d this_year len_prev by linarith
    moreover have "7 * k + 4 < days_before_year Y + 1"
      using prev jL by linarith
    moreover have "(7 * k + 4 - (days_before_year (Y - 1) + 1)) div 7 = k - jP"
      using jP(2,3) by (rule thursday_week_number)
    ultimately show ?thesis
      unfolding is_iso8601_year_week_def Let_def res thursday ymd2ord_january1 by simp
  next
    case nxt
    then have res: "fst (isocalendar n) = Y + 1" "fst (snd (isocalendar n)) = 1"
      by (simp_all add: isocalendar_def Let_def Y_def [symmetric] week)
    have kj: "k = jH" using nxt(2) n d jH this_year by linarith
    have "days_before_year (Y + 1) + 1 \<le> 7 * k + 4"
      using kj jH by linarith
    moreover have "7 * k + 4 < days_before_year (Y + 1 + 1) + 1"
      using n d this_year len by linarith
    moreover have "(7 * k + 4 - (days_before_year (Y + 1) + 1)) div 7 = k - jH"
      using jH(2,3) by (rule thursday_week_number)
    ultimately show ?thesis
      unfolding is_iso8601_year_week_def Let_def res thursday ymd2ord_january1
      using kj by simp
  next
    case same
    then have res: "fst (isocalendar n) = Y" "fst (snd (isocalendar n)) = k - jL + 1"
      by (simp_all add: isocalendar_def Let_def Y_def [symmetric] week)
    have "days_before_year Y + 1 \<le> 7 * k + 4"
      using same(1) jL by linarith
    moreover have "7 * k + 4 < days_before_year (Y + 1) + 1"
    proof (cases "k - jL \<ge> 52")
      case False
      then show ?thesis using jL len by linarith
    next
      case True
      with same(2) have "n < 7 * jH + 1" using jH(1) by simp
      then have "k \<le> jH - 1" using n d by linarith
      then show ?thesis using jH by linarith
    qed
    moreover have "(7 * k + 4 - (days_before_year Y + 1)) div 7 = k - jL"
      using jL(2,3) by (rule thursday_week_number)
    ultimately show ?thesis
      unfolding is_iso8601_year_week_def Let_def res thursday ymd2ord_january1 by simp
  qed
qed

lemma days_before_year_add: "days_before_year y \<le> days_before_year (y + int k)"
proof (induction k)
  case 0
  show ?case by simp
next
  case (Suc k)
  have "days_before_year (y + int k) \<le> days_before_year (y + int k + 1)"
    using year_length(1) [of "y + int k"] by simp
  moreover have "y + int (Suc k) = y + int k + 1" by simp
  ultimately show ?case using Suc by (simp only:)
qed

lemma days_before_year_mono:
  assumes "y \<le> y'"
  shows "days_before_year y \<le> days_before_year y'"
  using days_before_year_add [of y "nat (y' - y)"] assms by simp

lemma iso8601_year_week_unique:
  assumes "is_iso8601_year_week d y wk" and "is_iso8601_year_week d y' wk'"
  shows "y = y' \<and> wk = wk'"
proof -
  let ?t = "d - (d - 1) mod 7 + 3"
  have a: "days_before_year y + 1 \<le> ?t" "?t < days_before_year (y + 1) + 1"
    "wk = (?t - (days_before_year y + 1)) div 7 + 1"
    using assms(1) by (simp_all add: is_iso8601_year_week_def Let_def ymd2ord_january1)
  have b: "days_before_year y' + 1 \<le> ?t" "?t < days_before_year (y' + 1) + 1"
    "wk' = (?t - (days_before_year y' + 1)) div 7 + 1"
    using assms(2) by (simp_all add: is_iso8601_year_week_def Let_def ymd2ord_january1)
  have "\<not> y < y'"
  proof
    assume "y < y'"
    then have "days_before_year (y + 1) \<le> days_before_year y'"
      by (intro days_before_year_mono) simp
    with a(2) b(1) show False by linarith
  qed
  moreover have "\<not> y' < y"
  proof
    assume "y' < y"
    then have "days_before_year (y' + 1) \<le> days_before_year y"
      by (intro days_before_year_mono) simp
    with b(2) a(1) show False by linarith
  qed
  ultimately have "y = y'" by linarith
  with a(3) b(3) show ?thesis by simp
qed

text \<open>
  C9: for a date \<open>D\<close> from which seven days can be subtracted, the resolver returns
  exactly the ISO-8601 year and week of \<open>D - 7\<close>.
\<close>

theorem get_previous_week_info_iso8601:
  assumes "7 < today w" and "today w \<le> max_ordinal"
  shows "get_previous_week_info w = Inr (year, week) \<longleftrightarrow>
           is_iso8601_year_week (today w - 7) year week"
proof -
  let ?d = "today w - 7"
  have res: "get_previous_week_info w = Inr (fst (isocalendar ?d), fst (snd (isocalendar ?d)))"
    using assms by (simp add: get_previous_week_info_def Let_def split: prod.splits)
  have iso: "is_iso8601_year_week ?d (fst (isocalendar ?d)) (fst (snd (isocalendar ?d)))"
    by (rule isocalendar_iso8601)
  show ?thesis
  proof
    assume "get_previous_week_info w = Inr (year, week)"
    with res iso show "is_iso8601_year_week ?d year week" by simp
  next
    assume "is_iso8601_year_week ?d year week"
    with iso have "fst (isocalendar ?d) = year \<and> fst (snd (isocalendar ?d)) = week"
      by (rule iso8601_year_week_unique)
    with res show "get_previous_week_info w = Inr (year, week)" by simp
  qed
qed

theorem get_previous_week_info_iso8601_witness:
  "today example_world = ymd2ord 2027 1 8 \<and>
   get_previous_week_info example_world = Inr (2026, 53) \<and>
   is_iso8601_year_week (ymd2ord 2027 1 1) 2026 53"
proof -
  have d: "today example_world = 739989"
    by (simp add: example_world_def ymd2ord_def days_before_year_def days_before_month_def
          is_leap_def Let_def)
  have o: "ymd2ord 2027 1 8 = 739989" "ymd2ord 2027 1 1 = 739982"
    by (simp_all add: ymd2ord_def days_before_year_def days_before_month_def is_leap_def Let_def)
  have r: "7 < today example_world" "today example_world \<le> max_ordinal"
    unfolding d by (simp_all add: max_ordinal_def)
  have y: "ord2year 739982 = 2027"
    by (simp add: ord2year_def Let_def)
  have m: "isoweek1monday 2027 = 739985" "isoweek1monday 2026 = 739614"
    by (simp_all add: isoweek1monday_def ymd2ord_def days_before_year_def days_before_month_def
          Let_def)
  have "isocalendar 739982 = (2026, 53, 5)"
    by (simp add: isocalendar_def y m Let_def)
  then have "get_previous_week_info example_world = Inr (2026, 53)"
    by (simp add: get_previous_week_info_def d max_ordinal_def Let_def)
  with get_previous_week_info_iso8601 [OF r, of 2026 53] d o show ?thesis by simp
qed

section \<open>The report\<close>

lemma file_text_file_write [simp]: "file_text f (file_write f t s) = file_text f s @ t"
  by (simp add: file_text_def file_write_def split: option.splits)

lemma file_text_py_print [simp]: "file_text f (py_print l s) = file_text f s"
  by (simp add: file_text_def py_print_def)

lemma requested_file_write [simp]: "requested (file_write f t s) = requested s"
  by (simp add: file_write_def)

lemma requested_py_print [simp]: "requested (py_print l s) = requested s"
  by (simp add: py_print_def)

lemma translate_attempts_frame:
  "files (snd (translate_attempts w tx attempt delay s)) = files s \<and>
   requested (snd (translate_attempts w tx attempt delay s)) = requested s"
proof (induction w tx attempt delay s rule: translate_attempts.induct)
  case (1 w tx attempt delay s)
  show ?case
  proof (cases "attempt < max_retries")
    case False
    then show ?thesis by (simp add: translate_attempts_exhausted)
  next
    case lt: True
    show ?thesis
    proof (cases "first_choice_stripped (chat w (length (api_log s)) (user_content tx))")
      case (Inr t)
      with lt show ?thesis by (simp add: translate_attempts_success)
    next
      case (Inl e)
      show ?thesis
      proof (cases "openai_has_api_connection_error w")
        case False
        with lt Inl show ?thesis by (simp add: translate_attempts_lookup_fails)
      next
        case lib: True
        show ?thesis
        proof (cases "is_connectivity e")
          case False
          with lib lt Inl show ?thesis by (simp add: translate_attempts_other_error)
        next
          case True
          have "translate_attempts w tx attempt delay s =
                translate_attempts w tx (attempt + 1) (delay * 2)
                  (sleep delay (py_print (msg_retry attempt delay)
                     (s\<lparr>api_log := api_log s @ [user_content tx]\<rparr>)))"
            using lib lt Inl True by (rule translate_attempts_retry)
          with "1.IH"[OF lt refl refl Inl _ True] lib show ?thesis
            by (simp add: sleep_def py_print_def)
        qed
      qed
    qed
  qed
qed

lemma translate_result_with_library:
  assumes "openai_has_api_connection_error w"
  shows "\<exists>t. fst (translate_text_with_openai w c tx s) = Inr t"
  using translate_attempts_result [OF assms, of tx 0 2 s]
  by (auto simp: translate_text_with_openai_def)

lemma translate_frame:
  "translate_text_with_openai w c tx s = (r, s') \<Longrightarrow>
     file_text f s' = file_text f s \<and> requested s' = requested s \<and>
     (openai_has_api_connection_error w \<longrightarrow> (\<exists>t. r = Inr t))"
  using translate_attempts_frame [of w tx 0 2 s] translate_result_with_library [of w c tx s]
  by (auto simp: translate_text_with_openai_def file_text_def split: if_splits)

lemma get_tree_frame:
  "get_tree w url s = (r, s') \<Longrightarrow>
     file_text f s' = file_text f s \<and> requested s' = requested s @ [url]"
  by (auto simp: get_tree_def Let_def file_text_def split: sum.splits if_splits)

lemma rank_marker_heading: "prefix (rank_marker i) (entry_heading i title @ rest)"
  by (simp add: rank_marker_def entry_heading_def)

lemma rank_marker_failure: "prefix (rank_marker i) (failure_block i e @ rest)"
  by (simp add: rank_marker_def failure_block_def ascii_def)

lemma entry_body_success_text:
  assumes "entry_body w c f n i art s = (Inr u, s')"
  shows "\<exists>h hs l ls rest. h3s art = h # hs \<and> hrefs h = l # ls \<and> texts h \<noteq> [] \<and>
           file_text f s' = file_text f s @
             entry_heading i (strip (concat (texts h))) @ link_line (base_url @ l) @ rest"
  using assms
  by (auto simp: entry_body_def Let_def
           split: list.splits prod.splits sum.splits
           dest!: get_tree_frame [where f = f] translate_frame [where f = f])

text \<open>
  Whatever the library, a failed entry has written nothing yet, or a text that starts
  with its heading.
\<close>

lemma entry_body_failure_start:
  assumes "entry_body w c f n i art s = (Inl e, s')"
  shows "file_text f s' = file_text f s \<or>
         prefix (file_text f s @ rank_marker i) (file_text f s')"
  using assms
  by (auto simp: entry_body_def Let_def rank_marker_heading
           split: list.splits prod.splits sum.splits
           dest!: get_tree_frame [where f = f] translate_frame [where f = f])

lemma process_entry_failure:
  "entry_body w c f n i art s = (Inl e, s') \<Longrightarrow>
     file_text f (process_entry w c f n i art s) = file_text f s' @ failure_block i e"
  by (simp add: process_entry_def)

lemma process_entry_appends:
  "\<exists>t. file_text f (process_entry w c f n i art s) = file_text f s @ t \<and> prefix (rank_marker i) t"
proof (cases "entry_body w c f n i art s")
  case (Pair r s')
  show ?thesis
  proof (cases r)
    case (Inr u)
    from entry_body_success_text [OF Pair [unfolded Inr]] obtain h hs l ls rest where
      "h3s art = h # hs \<and> hrefs h = l # ls \<and> texts h \<noteq> [] \<and>
       file_text f s' = file_text f s @
         entry_heading i (strip (concat (texts h))) @ link_line (base_url @ l) @ rest"
      by (elim exE)
    then have "file_text f s' = file_text f s @
         entry_heading i (strip (concat (texts h))) @ link_line (base_url @ l) @ rest"
      by simp
    moreover have "process_entry w c f n i art s = s'" using Pair Inr by (simp add: process_entry_def)
    ultimately show ?thesis using rank_marker_heading by blast
  next
    case (Inl e)
    note eb = Pair [unfolded Inl]
    have c: "file_text f (process_entry w c f n i art s) = file_text f s' @ failure_block i e"
      using eb by (rule process_entry_failure)
    from entry_body_failure_start [OF eb]
    show ?thesis
    proof
      assume "file_text f s' = file_text f s"
      with c rank_marker_failure [of i e "[]"] show ?thesis by auto
    next
      assume "prefix (file_text f s @ rank_marker i) (file_text f s')"
      then obtain rest where "file_text f s' = (file_text f s @ rank_marker i) @ rest"
        by (rule prefixE)
      with c have "file_text f (process_entry w c f n i art s) =
          file_text f s @ (rank_marker i @ (rest @ failure_block i e))"
        by simp
      moreover have "prefix (rank_marker i) (rank_marker i @ (rest @ failure_block i e))"
        by simp
      ultimately show ?thesis by blast
    qed
  qed
qed

lemma process_entry_text:
  "file_text f (process_entry w c f n i art s) = file_text f s @ entry_text w c f n i art s"
  using process_entry_appends [of f w c n i art s] by (auto simp: entry_text_def)

lemma entry_text_marker: "prefix (rank_marker i) (entry_text w c f n i art s)"
  using process_entry_appends [of f w c n i art s] by (auto simp: entry_text_def)

lemma process_articles_content:
  "file_text f (process_articles w c f n i arts s) = file_text f s @ concat (entry_texts w c f n i arts s)"
  by (induction arts arbitrary: i s) (simp_all add: process_entry_text)

lemma length_entry_texts [simp]: "length (entry_texts w c f n i arts s) = length arts"
  by (induction arts arbitrary: i s) simp_all

lemma process_articles_append:
  "process_articles w c f n i (xs @ ys) s =
     process_articles w c f n (i + length xs) ys (process_articles w c f n i xs s)"
  by (induction xs arbitrary: i s) simp_all

lemma entry_texts_nth:
  "j < length arts \<Longrightarrow>
     entry_texts w c f n i arts s ! j =
       entry_text w c f n (i + j) (arts ! j) (process_articles w c f n i (take j arts) s)"
proof (induction arts arbitrary: i j s)
  case Nil
  then show ?case by simp
next
  case (Cons a arts)
  show ?case
  proof (cases j)
    case 0
    then show ?thesis by simp
  next
    case (Suc j')
    with Cons.prems have "j' < length arts" by simp
    from Cons.IH [OF this, of "i + 1" "process_entry w c f n i a s"] Suc
    show ?thesis by simp
  qed
qed

lemma entry_body_requests:
  assumes "h3s art = h # hs" and "hrefs h = l # ls" and "texts h \<noteq> []"
  shows "requested (snd (entry_body w c f n i art s)) = requested s @ [base_url @ l]"
proof -
  obtain t ts where t: "texts h = t # ts" using assms(3) by (cases "texts h") auto
  show ?thesis
    using assms(1,2) t
    by (auto simp: entry_body_def Let_def
             split: list.splits prod.splits sum.splits
             dest!: get_tree_frame [where f = f] translate_frame [where f = f])
qed

lemma entry_body_heading_text:
  assumes "h3s art = h # hs" and "hrefs h = l # ls" and "texts h \<noteq> []"
  shows "\<exists>rest. file_text f (snd (entry_body w c f n i art s)) = file_text f s @
           entry_heading i (strip (concat (texts h))) @ link_line (base_url @ l) @ rest"
proof -
  obtain t ts where t: "texts h = t # ts" using assms(3) by (cases "texts h") auto
  show ?thesis
    using assms(1,2) t
    by (auto simp: entry_body_def Let_def
             split: list.splits prod.splits sum.splits
             dest!: get_tree_frame [where f = f] translate_frame [where f = f])
qed

text \<open>
  C10: for an entry whose heading has a link and a title, the detail URL is the base
  URL \<^verbatim>\<open>https://huggingface.co\<close> followed by the first href, whatever the href is:
  that URL is requested and written on the entry's link line. Nothing looks at whether
  the href is already absolute.
\<close>

theorem detail_url_is_base_plus_href:
  assumes "h3s art = h # hs" and "hrefs h = l # ls" and "texts h \<noteq> []"
  shows "base_url = ascii ''https://huggingface.co'' \<and>
         requested (process_entry w c f n i art s) = requested s @ [base_url @ l] \<and>
         prefix (entry_heading i (strip (concat (texts h))) @ link_line (base_url @ l))
           (entry_text w c f n i art s)"
proof -
  obtain r s' where eb: "entry_body w c f n i art s = (r, s')"
    by (cases "entry_body w c f n i art s")
  have req: "requested s' = requested s @ [base_url @ l]"
    using entry_body_requests [OF assms, of w c f n i s] eb by simp
  obtain rest where written: "file_text f s' = file_text f s @
           entry_heading i (strip (concat (texts h))) @ link_line (base_url @ l) @ rest"
    using entry_body_heading_text [OF assms, of f w c n i s] eb by auto
  have "requested (process_entry w c f n i art s) = requested s'"
    using eb by (cases r) (simp_all add: process_entry_def)
  moreover have "\<exists>rest'. file_text f (process_entry w c f n i art s) = file_text f s @
           (entry_heading i (strip (concat (texts h))) @ link_line (base_url @ l)) @ rest'"
    using eb written by (cases r) (simp_all add: process_entry_def)
  then have "prefix (entry_heading i (strip (concat (texts h))) @ link_line (base_url @ l))
           (entry_text w c f n i art s)"
    unfolding entry_text_def by (auto simp: prefix_def)
  ultimately show ?thesis using req by (simp add: base_url_def)
qed

theorem detail_url_is_base_plus_href_witness:
  "requested (process_entry example_world (Some (OpenAI example_key)) example_file 3 2
      absolute_link initial_state) =
     [ascii ''https://huggingface.co'' @ ascii ''https://arxiv.org/abs/2501.00003''] \<and>
   prefix (entry_heading 2 (ascii ''Paper C'') @
           link_line (ascii ''https://huggingface.co'' @ ascii ''https://arxiv.org/abs/2501.00003''))
     (entry_text example_world (Some (OpenAI example_key)) example_file 3 2 absolute_link
        initial_state)"
proof -
  have h: "h3s absolute_link =
      \<lparr>hrefs = [ascii ''https://arxiv.org/abs/2501.00003''], texts = [ascii ''Paper C'']\<rparr> # []"
    by (simp add: absolute_link_def)
  have l: "hrefs \<lparr>hrefs = [ascii ''https://arxiv.org/abs/2501.00003''], texts = [ascii ''Paper C'']\<rparr>
      = ascii ''https://arxiv.org/abs/2501.00003'' # []"
    by simp
  have t: "texts \<lparr>hrefs = [ascii ''https://arxiv.org/abs/2501.00003''], texts = [ascii ''Paper C'']\<rparr>
      \<noteq> []"
    by simp
  have title: "strip (ascii ''Paper C'') = ascii ''Paper C''"
    by (simp add: strip_def isspace_def ascii_simps)
  show ?thesis
    using detail_url_is_base_plus_href [OF h l t, of example_world "Some (OpenAI example_key)"
        example_file 3 2 initial_state]
    by (simp add: title initial_state_def)
qed

lemma get_tree_outcome:
  "requested s' = requested s \<Longrightarrow> fst (get_tree w url s') = fst (get_tree w url s)"
  by (simp add: get_tree_def Let_def split: sum.splits)

text \<open>
  C6, as the code has it, for the errors that come before the translator is called: the
  entry gets one failure block that names the error, at the end of its text. With no
  heading (\<^verbatim>\<open>IndexError\<close>), or a heading without link or title (\<^verbatim>\<open>ValueError\<close>),
  the block is the whole text of the entry. When the detail page cannot be fetched or
  parsed, the rank, title and link lines are already in the file and the block follows
  them; no abstract and no translation is written. (The outcome of the detail request
  depends on the state only through the number of requests made so far.)
\<close>

theorem failed_entry_text:
  "(h3s art = [] \<longrightarrow>
      entry_text w c f n i art s =
        failure_block i (Exn IndexError (ascii ''list index out of range''))) \<and>
   (\<forall>h hs. h3s art = h # hs \<and> (hrefs h = [] \<or> texts h = []) \<longrightarrow>
      entry_text w c f n i art s = failure_block i (Exn ValueError msg_no_link_or_title)) \<and>
   (\<forall>h hs l ls e.
      h3s art = h # hs \<and> hrefs h = l # ls \<and> texts h \<noteq> [] \<and>
      fst (get_tree w (base_url @ l) s) = Inl e \<longrightarrow>
      entry_text w c f n i art s =
        entry_heading i (strip (concat (texts h))) @ link_line (base_url @ l) @
        failure_block i e)"
proof (intro conjI allI impI)
  assume "h3s art = []"
  then have "entry_body w c f n i art s =
      (Inl (Exn IndexError (ascii ''list index out of range'')), s)"
    by (simp add: entry_body_def)
  then have "file_text f (process_entry w c f n i art s) =
      file_text f s @ failure_block i (Exn IndexError (ascii ''list index out of range''))"
    by (rule process_entry_failure)
  then show "entry_text w c f n i art s =
      failure_block i (Exn IndexError (ascii ''list index out of range''))"
    by (simp add: entry_text_def)
next
  fix h hs
  assume "h3s art = h # hs \<and> (hrefs h = [] \<or> texts h = [])"
  then have "entry_body w c f n i art s = (Inl (Exn ValueError msg_no_link_or_title), s)"
    by (auto simp: entry_body_def split: list.splits)
  then have "file_text f (process_entry w c f n i art s) =
      file_text f s @ failure_block i (Exn ValueError msg_no_link_or_title)"
    by (rule process_entry_failure)
  then show "entry_text w c f n i art s = failure_block i (Exn ValueError msg_no_link_or_title)"
    by (simp add: entry_text_def)
next
  fix h hs l ls e
  assume a: "h3s art = h # hs \<and> hrefs h = l # ls \<and> texts h \<noteq> [] \<and>
      fst (get_tree w (base_url @ l) s) = Inl e"
  then obtain t ts where t: "texts h = t # ts" by (cases "texts h") auto
  define title where "title = strip (concat (texts h))"
  define s3 where "s3 =
      file_write f (link_line (base_url @ l))
        (file_write f (entry_heading i title) (py_print (msg_processing i n title) s))"
  have "requested s3 = requested s" by (simp add: s3_def)
  then have "fst (get_tree w (base_url @ l) s3) = fst (get_tree w (base_url @ l) s)"
    by (rule get_tree_outcome)
  with a have "fst (get_tree w (base_url @ l) s3) = Inl e"
    by simp
  then obtain s4 where g: "get_tree w (base_url @ l) s3 = (Inl e, s4)"
    by (cases "get_tree w (base_url @ l) s3") auto
  have written: "file_text f s4 = file_text f s @ entry_heading i title @ link_line (base_url @ l)"
    using get_tree_frame [OF g, of f] by (simp add: s3_def)
  have "entry_body w c f n i art s = (Inl e, s4)"
    using a t g by (simp add: entry_body_def Let_def s3_def title_def)
  then have "file_text f (process_entry w c f n i art s) = file_text f s4 @ failure_block i e"
    by (rule process_entry_failure)
  then show "entry_text w c f n i art s =
        entry_heading i (strip (concat (texts h))) @ link_line (base_url @ l) @
        failure_block i e"
    by (simp add: entry_text_def written title_def)
qed

lemma absolute_link_fails:
  "fst (entry_body example_world (Some (OpenAI example_key)) example_file 3 2 absolute_link
          initial_state) = Inl refused"
  by (simp add: entry_body_def absolute_link_def Let_def get_tree_def example_world_def
        base_url_def target_url_of_def py_print_def file_write_def initial_state_def ascii_simps)

theorem failed_entry_text_witness:
  "\<not> openai_has_api_connection_error actual_world \<and>
   fst (get_tree actual_world (base_url @ ascii ''https://arxiv.org/abs/2501.00003'')
          initial_state) = Inl refused \<and>
   entry_text actual_world (Some (OpenAI example_key)) example_file 3 2 absolute_link
     initial_state =
   entry_heading 2 (ascii ''Paper C'') @
   link_line (base_url @ ascii ''https://arxiv.org/abs/2501.00003'') @
   failure_block 2 refused \<and>
   entry_text actual_world (Some (OpenAI example_key)) example_file 3 1 no_heading
     initial_state =
   failure_block 1 (Exn IndexError (ascii ''list index out of range''))"
proof -
  have lib: "\<not> openai_has_api_connection_error actual_world"
    by (simp add: actual_world_def)
  have g: "fst (get_tree actual_world (base_url @ ascii ''https://arxiv.org/abs/2501.00003'')
          initial_state) = Inl refused"
    by (simp add: get_tree_def Let_def actual_world_def example_world_def base_url_def
          target_url_of_def initial_state_def ascii_simps)
  have title: "strip (ascii ''Paper C'') = ascii ''Paper C''"
    by (simp add: strip_def isspace_def ascii_simps)
  have a: "h3s absolute_link =
        \<lparr>hrefs = [ascii ''https://arxiv.org/abs/2501.00003''], texts = [ascii ''Paper C'']\<rparr> # [] \<and>
      hrefs \<lparr>hrefs = [ascii ''https://arxiv.org/abs/2501.00003''], texts = [ascii ''Paper C'']\<rparr> =
        ascii ''https://arxiv.org/abs/2501.00003'' # [] \<and>
      texts \<lparr>hrefs = [ascii ''https://arxiv.org/abs/2501.00003''], texts = [ascii ''Paper C'']\<rparr>
        \<noteq> [] \<and>
      fst (get_tree actual_world (base_url @ ascii ''https://arxiv.org/abs/2501.00003'')
          initial_state) = Inl refused"
    using g by (simp add: absolute_link_def)
  have b: "h3s no_heading = []" by (simp add: no_heading_def)
  note inst = failed_entry_text [of no_heading actual_world "Some (OpenAI example_key)"
      example_file 3 1 initial_state]
    failed_entry_text [of absolute_link actual_world "Some (OpenAI example_key)"
      example_file 3 2 initial_state]
  have "entry_text actual_world (Some (OpenAI example_key)) example_file 3 1 no_heading
     initial_state = failure_block 1 (Exn IndexError (ascii ''list index out of range''))"
    using inst(1) b by blast
  moreover have "entry_text actual_world (Some (OpenAI example_key)) example_file 3 2
     absolute_link initial_state =
     entry_heading 2 (strip (concat (texts
       \<lparr>hrefs = [ascii ''https://arxiv.org/abs/2501.00003''], texts = [ascii ''Paper C'']\<rparr>))) @
     link_line (base_url @ ascii ''https://arxiv.org/abs/2501.00003'') @
     failure_block 2 refused"
    using inst(2) a by blast
  ultimately show ?thesis using lib g by (simp add: title)
qed

text \<open>
  C6 as stated fails: the entry with the absolute link, whose detail request is refused,
  has its rank, title and link lines in the report, followed by the failure block; the
  block does not stand in place of them.
\<close>

theorem failure_block_not_in_place_of_fields:
  "fst (entry_body example_world (Some (OpenAI example_key)) example_file 3 2 absolute_link
          initial_state) = Inl refused \<and>
   entry_text example_world (Some (OpenAI example_key)) example_file 3 2 absolute_link
     initial_state \<noteq> failure_block 2 refused \<and>
   prefix (entry_heading 2 (ascii ''Paper C'') @
           link_line (base_url @ ascii ''https://arxiv.org/abs/2501.00003''))
     (entry_text example_world (Some (OpenAI example_key)) example_file 3 2 absolute_link
        initial_state)"
proof -
  have title: "strip (ascii ''Paper C'') = ascii ''Paper C''"
    by (simp add: strip_def isspace_def ascii_simps)
  have run: "file_text example_file (process_entry example_world (Some (OpenAI example_key))
        example_file 3 2 absolute_link initial_state) =
      entry_heading 2 (ascii ''Paper C'') @
      link_line (base_url @ ascii ''https://arxiv.org/abs/2501.00003'') @
      failure_block 2 refused"
    by (simp add: process_entry_def entry_body_def absolute_link_def Let_def get_tree_def
          example_world_def title base_url_def target_url_of_def initial_state_def ascii_simps
          file_text_def file_write_def py_print_def refused_def strip_def isspace_def)
  have none: "file_text example_file initial_state = []"
    by (simp add: file_text_def initial_state_def)
  have e: "entry_text example_world (Some (OpenAI example_key)) example_file 3 2 absolute_link
      initial_state =
      entry_heading 2 (ascii ''Paper C'') @
      link_line (base_url @ ascii ''https://arxiv.org/abs/2501.00003'') @
      failure_block 2 refused"
    unfolding entry_text_def run none by simp
  have "entry_heading 2 (ascii ''Paper C'') \<noteq> []"
    by (simp add: entry_heading_def)
  then show ?thesis
    unfolding e using absolute_link_fails by simp
qed

text \<open>
  C4: when the processing of entry \<open>j\<close> raises \<open>e\<close> (from the heading, the detail
  request, the parser or the translator), the handler appends the failure block of rank
  \<open>j + 1\<close> naming \<open>e\<close> to what the entry had written, and the loop goes on: the report
  ends with the texts of all the entries after \<open>j\<close>, one for each article in order, each
  starting with its own rank.
\<close>

theorem entry_failure_is_isolated:
  assumes "j < length arts"
    and "entry_body w c f n j (arts ! j) (process_articles w c f n 0 (take j arts) s) = (Inl e, s')"
  shows "let before = process_articles w c f n 0 (take j arts) s;
             after = process_entry w c f n j (arts ! j) before;
             later = entry_texts w c f n (Suc j) (drop (Suc j) arts) after
         in file_text f after = file_text f s' @ failure_block j e \<and>
            file_text f (process_articles w c f n 0 arts s) = file_text f after @ concat later \<and>
            length later = length arts - Suc j \<and>
            (\<forall>k<length later.
               prefix (rank_marker (Suc j + k)) (later ! k) \<and>
               later ! k =
                 entry_text w c f n (Suc j + k) (arts ! (Suc j + k))
                   (process_articles w c f n 0 (take (Suc j + k) arts) s))"
proof -
  define before where "before = process_articles w c f n 0 (take j arts) s"
  define after where "after = process_entry w c f n j (arts ! j) before"
  define later where "later = entry_texts w c f n (Suc j) (drop (Suc j) arts) after"
  have parts: "arts = take j arts @ arts ! j # drop (Suc j) arts"
    using assms(1) by (rule id_take_nth_drop)
  have len: "length (take j arts) = j" using assms(1) by simp
  have "process_articles w c f n 0 arts s =
        process_articles w c f n (0 + length (take j arts)) (arts ! j # drop (Suc j) arts) before"
    unfolding before_def by (subst parts, rule process_articles_append)
  then have run: "process_articles w c f n 0 arts s =
        process_articles w c f n (Suc j) (drop (Suc j) arts) after"
    unfolding after_def len by simp
  have 1: "file_text f after = file_text f s' @ failure_block j e"
    unfolding after_def before_def using assms(2) by (rule process_entry_failure)
  have 2: "file_text f (process_articles w c f n 0 arts s) = file_text f after @ concat later"
    unfolding run later_def by (rule process_articles_content)
  have 3: "length later = length arts - Suc j" unfolding later_def by simp
  have 4: "\<forall>k<length later.
               prefix (rank_marker (Suc j + k)) (later ! k) \<and>
               later ! k =
                 entry_text w c f n (Suc j + k) (arts ! (Suc j + k))
                   (process_articles w c f n 0 (take (Suc j + k) arts) s)"
  proof (intro allI impI)
    fix k assume "k < length later"
    then have k: "k < length (drop (Suc j) arts)" unfolding later_def by simp
    have nth: "later ! k =
        entry_text w c f n (Suc j + k) (drop (Suc j) arts ! k)
          (process_articles w c f n (Suc j) (take k (drop (Suc j) arts)) after)"
      unfolding later_def using k by (rule entry_texts_nth)
    have "take (Suc j + k) arts = take (Suc j) arts @ take k (drop (Suc j) arts)"
      by (rule take_add)
    moreover have "take (Suc j) arts = take j arts @ [arts ! j]"
      using assms(1) by (rule take_Suc_conv_app_nth)
    ultimately have "process_articles w c f n 0 (take (Suc j + k) arts) s =
        process_articles w c f n (Suc j) (take k (drop (Suc j) arts)) after"
      unfolding after_def before_def using assms(1)
      by (simp add: process_articles_append min_absorb2)
    moreover have "drop (Suc j) arts ! k = arts ! (Suc j + k)"
      using k by simp
    ultimately have "later ! k =
        entry_text w c f n (Suc j + k) (arts ! (Suc j + k))
          (process_articles w c f n 0 (take (Suc j + k) arts) s)"
      using nth by simp
    then show "prefix (rank_marker (Suc j + k)) (later ! k) \<and>
               later ! k =
                 entry_text w c f n (Suc j + k) (arts ! (Suc j + k))
                   (process_articles w c f n 0 (take (Suc j + k) arts) s)"
      by (simp add: entry_text_marker)
  qed
  show ?thesis
    using 1 2 3 4 unfolding Let_def before_def after_def later_def by blast
qed

theorem entry_failure_is_isolated_witness:
  "let before = process_articles example_world (Some (OpenAI example_key)) example_file 3 0
          (take (Suc 0) [paper_a, no_heading, absolute_link]) initial_state;
       after = process_entry example_world (Some (OpenAI example_key)) example_file 3 (Suc 0)
          ([paper_a, no_heading, absolute_link] ! Suc 0) before;
       later = entry_texts example_world (Some (OpenAI example_key)) example_file 3 (Suc (Suc 0))
          (drop (Suc (Suc 0)) [paper_a, no_heading, absolute_link]) after
   in file_text example_file after =
        file_text example_file
          (process_articles example_world (Some (OpenAI example_key)) example_file 3 0
             (take (Suc 0) [paper_a, no_heading, absolute_link]) initial_state) @
        failure_block (Suc 0) (Exn IndexError (ascii ''list index out of range'')) \<and>
      file_text example_file
        (process_articles example_world (Some (OpenAI example_key)) example_file 3 0
           [paper_a, no_heading, absolute_link] initial_state) =
        file_text example_file after @ concat later \<and>
      length later = length [paper_a, no_heading, absolute_link] - Suc (Suc 0) \<and>
      (\<forall>k<length later.
         prefix (rank_marker (Suc (Suc 0) + k)) (later ! k) \<and>
         later ! k =
           entry_text example_world (Some (OpenAI example_key)) example_file 3 (Suc (Suc 0) + k)
             ([paper_a, no_heading, absolute_link] ! (Suc (Suc 0) + k))
             (process_articles example_world (Some (OpenAI example_key)) example_file 3 0
                (take (Suc (Suc 0) + k) [paper_a, no_heading, absolute_link]) initial_state))"
proof (rule entry_failure_is_isolated)
  show "Suc 0 < length [paper_a, no_heading, absolute_link]" by simp
  show "entry_body example_world (Some (OpenAI example_key)) example_file 3 (Suc 0)
          ([paper_a, no_heading, absolute_link] ! Suc 0)
          (process_articles example_world (Some (OpenAI example_key)) example_file 3 0
             (take (Suc 0) [paper_a, no_heading, absolute_link]) initial_state) =
        (Inl (Exn IndexError (ascii ''list index out of range'')),
         process_articles example_world (Some (OpenAI example_key)) example_file 3 0
             (take (Suc 0) [paper_a, no_heading, absolute_link]) initial_state)"
    by (simp add: entry_body_def no_heading_def)
qed

lemma file_text_open_and_write_header:
  "file_text (output_filename_of week_str) (open_and_write_header week_str s) =
     report_title week_str @ report_source (target_url_of week_str)"
  by (simp add: open_and_write_header_def Let_def) (simp add: file_text_def)

text \<open>
  C5: when the listing has articles and the file opens, the report is the header followed
  by one text per article of the first ten, so at most ten; the \<open>j\<close>-th text is the one
  the \<open>j\<close>-th article node of the listing produced, and it starts with rank \<open>j + 1\<close>.
\<close>

theorem report_entries_capped_and_ordered:
  assumes "get_tree w (target_url_of week_str) s = (Inr tree, s1)"
    and "listing_articles tree \<noteq> []"
    and "open_error w (output_filename_of week_str) = None"
  shows "let f = output_filename_of week_str;
             arts = listing_articles tree;
             n = min num_papers_to_scrape (length arts);
             opened = open_and_write_header week_str (py_print (msg_found n) s1);
             entries = entry_texts w c f n 0 (take num_papers_to_scrape arts) opened
         in file_text f (snd (listing_and_report w c week_str s)) =
              report_title week_str @ report_source (target_url_of week_str) @ concat entries \<and>
            length entries = n \<and> length entries \<le> 10 \<and>
            (\<forall>j<length entries.
               prefix (rank_marker j) (entries ! j) \<and>
               entries ! j =
                 entry_text w c f n j (arts ! j) (process_articles w c f n 0 (take j arts) opened))"
proof -
  define f where "f = output_filename_of week_str"
  define arts where "arts = listing_articles tree"
  define n where "n = min num_papers_to_scrape (length arts)"
  define opened where "opened = open_and_write_header week_str (py_print (msg_found n) s1)"
  define entries where "entries = entry_texts w c f n 0 (take num_papers_to_scrape arts) opened"
  have n_len: "length (take num_papers_to_scrape arts) = n"
    by (simp add: n_def min.commute)
  have nonempty: "take num_papers_to_scrape arts \<noteq> []"
    using assms(2) by (simp add: arts_def num_papers_to_scrape_def)
  have run: "listing_and_report w c week_str s =
      (Inr (), py_print (msg_done f)
         (process_articles w c f n 0 (take num_papers_to_scrape arts) opened))"
    using assms(1,3) nonempty n_len
    by (simp add: listing_and_report_def Let_def f_def arts_def [symmetric] opened_def)
  have 1: "file_text f (snd (listing_and_report w c week_str s)) =
      report_title week_str @ report_source (target_url_of week_str) @ concat entries"
    unfolding run entries_def
    by (simp add: process_articles_content)
       (simp add: opened_def f_def file_text_open_and_write_header)
  have 2: "length entries = n" unfolding entries_def length_entry_texts by (rule n_len)
  have 3: "length entries \<le> 10" unfolding 2 n_def by (simp add: num_papers_to_scrape_def)
  have 4: "\<forall>j<length entries.
               prefix (rank_marker j) (entries ! j) \<and>
               entries ! j =
                 entry_text w c f n j (arts ! j) (process_articles w c f n 0 (take j arts) opened)"
  proof (intro allI impI)
    fix j assume "j < length entries"
    then have j: "j < length (take num_papers_to_scrape arts)" unfolding entries_def by simp
    then have jn: "j < num_papers_to_scrape" by simp
    have "entries ! j = entry_text w c f n (0 + j) (take num_papers_to_scrape arts ! j)
        (process_articles w c f n 0 (take j (take num_papers_to_scrape arts)) opened)"
      unfolding entries_def using j by (rule entry_texts_nth)
    moreover have "take num_papers_to_scrape arts ! j = arts ! j" using jn by simp
    moreover have "take j (take num_papers_to_scrape arts) = take j arts"
      using jn by (simp add: min_def)
    ultimately have e: "entries ! j =
        entry_text w c f n j (arts ! j) (process_articles w c f n 0 (take j arts) opened)"
      by simp
    then show "prefix (rank_marker j) (entries ! j) \<and>
               entries ! j =
                 entry_text w c f n j (arts ! j) (process_articles w c f n 0 (take j arts) opened)"
      by (simp add: entry_text_marker)
  qed
  show ?thesis
    using 1 2 3 4
    unfolding Let_def f_def [symmetric] arts_def [symmetric] n_def [symmetric]
      opened_def [symmetric] entries_def [symmetric]
    by blast
qed

theorem report_entries_capped_and_ordered_witness:
  "length (listing_articles
      \<lparr>listing_articles = replicate 12 no_heading, abstract_paragraphs = []\<rparr>) = 12 \<and>
   length (entry_texts crowded_world (Some (OpenAI example_key)) example_file 10 0
      (take num_papers_to_scrape (replicate 12 no_heading))
      (open_and_write_header (ascii ''2026-W53'')
         (py_print (msg_found 10) (initial_state\<lparr>requested := [target_url_of (ascii ''2026-W53'')]\<rparr>))))
     = 10 \<and>
   file_text example_file
     (snd (listing_and_report crowded_world (Some (OpenAI example_key)) (ascii ''2026-W53'')
        initial_state)) =
   report_title (ascii ''2026-W53'') @ report_source (target_url_of (ascii ''2026-W53'')) @
   concat (entry_texts crowded_world (Some (OpenAI example_key)) example_file 10 0
      (take num_papers_to_scrape (replicate 12 no_heading))
      (open_and_write_header (ascii ''2026-W53'')
         (py_print (msg_found 10) (initial_state\<lparr>requested := [target_url_of (ascii ''2026-W53'')]\<rparr>))))"
proof -
  let ?tree = "\<lparr>listing_articles = replicate 12 no_heading, abstract_paragraphs = []\<rparr>"
  have t: "get_tree crowded_world (target_url_of (ascii ''2026-W53'')) initial_state =
      (Inr ?tree, initial_state\<lparr>requested := [target_url_of (ascii ''2026-W53'')]\<rparr>)"
    by (simp add: get_tree_def crowded_world_def example_world_def ok_response_def Let_def
          initial_state_def)
  have ne: "listing_articles ?tree \<noteq> []" by simp
  have op: "open_error crowded_world (output_filename_of (ascii ''2026-W53'')) = None"
    by (simp add: crowded_world_def example_world_def)
  show ?thesis
    using report_entries_capped_and_ordered [OF t ne op, of "Some (OpenAI example_key)"]
    by (simp add: Let_def num_papers_to_scrape_def example_file_def)
qed

section \<open>The run\<close>

text \<open>
  C8: with a key and a listing page that is fetched and has no article node, the run
  returns normally, its last printed line is the "no paper information" message, one
  request was made, and the files are as they were: no output file is created.
\<close>

theorem no_articles_no_file:
  assumes "env_api_key w = Some api_key" and "api_key \<noteq> []"
    and "get_previous_week_info w = Inr (year, week)"
    and "http w (length (requested s)) (target_url_of (week_str_of year week)) = Inr r"
    and "\<not> (400 \<le> status_code r \<and> status_code r < 600)"
    and "parsed r = Inr tree" and "listing_articles tree = []"
  shows "scrape_and_translate_papers w s =
           (Inr (),
            s\<lparr>console := console s @
                 [msg_key_loaded, msg_fetching (target_url_of (week_str_of year week)),
                  msg_none_found (week_str_of year week)],
              requested := requested s @ [target_url_of (week_str_of year week)]\<rparr>) \<and>
         files (snd (scrape_and_translate_papers w s)) = files s"
proof -
  let ?url = "target_url_of (week_str_of year week)"
  let ?s2 = "py_print (msg_fetching ?url) (py_print msg_key_loaded s)"
  have client: "setup_api w s = (Some (OpenAI api_key), py_print msg_key_loaded s)"
    using assms(1,2) by (simp add: setup_api_def)
  have tree: "get_tree w ?url ?s2 = (Inr tree, ?s2\<lparr>requested := requested ?s2 @ [?url]\<rparr>)"
    using assms(4,5,6) by (simp add: get_tree_def Let_def py_print_def)
  have "listing_and_report w (Some (OpenAI api_key)) (week_str_of year week) ?s2 =
      (Inr (), py_print (msg_none_found (week_str_of year week))
         (?s2\<lparr>requested := requested ?s2 @ [?url]\<rparr>))"
    using assms(7) by (simp add: listing_and_report_def Let_def tree)
  then have "scrape_and_translate_papers w s =
           (Inr (),
            s\<lparr>console := console s @
                 [msg_key_loaded, msg_fetching (target_url_of (week_str_of year week)),
                  msg_none_found (week_str_of year week)],
              requested := requested s @ [target_url_of (week_str_of year week)]\<rparr>)"
    using assms(3) by (simp add: scrape_and_translate_papers_def client Let_def py_print_def)
  then show ?thesis by simp
qed

theorem no_articles_no_file_witness:
  "scrape_and_translate_papers empty_week_world initial_state =
     (Inr (),
      initial_state\<lparr>console :=
           [msg_key_loaded, msg_fetching (target_url_of (ascii ''2026-W53'')),
            msg_none_found (ascii ''2026-W53'')],
        requested := [target_url_of (ascii ''2026-W53'')]\<rparr>) \<and>
   files (snd (scrape_and_translate_papers empty_week_world initial_state)) = (\<lambda>f. None)"
proof -
  let ?r = "ok_response \<lparr>listing_articles = [], abstract_paragraphs = []\<rparr>"
  have key: "env_api_key empty_week_world = Some example_key" "example_key \<noteq> []"
    by (simp_all add: empty_week_world_def example_world_def example_key_def ascii_simps)
  have d: "today empty_week_world = 739989"
    by (simp add: empty_week_world_def example_world_def ymd2ord_def days_before_year_def
          days_before_month_def is_leap_def Let_def)
  have y: "ord2year 739982 = 2027"
    by (simp add: ord2year_def Let_def)
  have m: "isoweek1monday 2027 = 739985" "isoweek1monday 2026 = 739614"
    by (simp_all add: isoweek1monday_def ymd2ord_def days_before_year_def days_before_month_def
          Let_def)
  have "isocalendar 739982 = (2026, 53, 5)"
    by (simp add: isocalendar_def y m Let_def)
  then have week: "get_previous_week_info empty_week_world = Inr (2026, 53)"
    by (simp add: get_previous_week_info_def d max_ordinal_def Let_def)
  have page: "http empty_week_world (length (requested initial_state))
        (target_url_of (week_str_of 2026 53)) = Inr ?r"
    by (simp add: empty_week_world_def)
  have status: "\<not> (400 \<le> status_code ?r \<and> status_code ?r < 600)"
    by (simp add: ok_response_def)
  have tree: "parsed ?r = Inr \<lparr>listing_articles = [], abstract_paragraphs = []\<rparr>"
    by (simp add: ok_response_def)
  have none: "listing_articles \<lparr>listing_articles = [], abstract_paragraphs = []\<rparr> = []"
    by simp
  show ?thesis
    using no_articles_no_file [OF key week page status tree none]
    by (simp add: week_str_example initial_state_def)
qed

text \<open>
  C1, as the code has it: without the key (absent or empty) \<^verbatim>\<open>setup_api\<close> prints its
  two lines and gives no client, and the run returns at once: nothing is requested,
  nothing is sent to the translator, no file is written. The translator itself, called
  without a client on a text that is not blank, returns the fixed "client not set up"
  message.
\<close>

theorem missing_key_ends_run:
  assumes "env_api_key w = None \<or> env_api_key w = Some []"
  shows "scrape_and_translate_papers w s =
           (Inr (), s\<lparr>console := console s @ [msg_key_missing, msg_check_env]\<rparr>) \<and>
         (\<forall>tx s'. tx \<noteq> [] \<and> strip tx \<noteq> [] \<longrightarrow>
            translate_text_with_openai w None tx s' = (Inr msg_no_client, s'))"
proof -
  have "setup_api w s = (None, py_print msg_check_env (py_print msg_key_missing s))"
    using assms by (auto simp: setup_api_def)
  then have "scrape_and_translate_papers w s =
           (Inr (), s\<lparr>console := console s @ [msg_key_missing, msg_check_env]\<rparr>)"
    by (simp add: scrape_and_translate_papers_def py_print_def)
  moreover have "\<forall>tx s'. tx \<noteq> [] \<and> strip tx \<noteq> [] \<longrightarrow>
            translate_text_with_openai w None tx s' = (Inr msg_no_client, s')"
    by (simp add: translate_text_with_openai_def)
  ultimately show ?thesis by blast
qed

theorem missing_key_ends_run_witness:
  "env_api_key no_key_world = None \<and>
   scrape_and_translate_papers no_key_world initial_state =
     (Inr (), initial_state\<lparr>console := [msg_key_missing, msg_check_env]\<rparr>) \<and>
   translate_text_with_openai no_key_world None (ascii ''Hello'') initial_state =
     (Inr msg_no_client, initial_state)"
proof -
  have k: "env_api_key no_key_world = None \<or> env_api_key no_key_world = Some []"
    by (simp add: no_key_world_def)
  have nonblank: "ascii ''Hello'' \<noteq> [] \<and> strip (ascii ''Hello'') \<noteq> []"
    by (simp add: strip_hello) (simp add: ascii_simps)
  show ?thesis
    using missing_key_ends_run [OF k, of initial_state] nonblank
    by (simp add: no_key_world_def initial_state_def)
qed

text \<open>
  C1 as stated fails: in the example world without the key the listing page is there to
  be fetched, yet the run ends after the two lines of \<^verbatim>\<open>setup_api\<close> with no request
  made and nothing sent to the translator.
\<close>

theorem missing_key_stops_scraping:
  "env_api_key no_key_world = None \<and>
   http no_key_world 0 (target_url_of (ascii ''2026-W53'')) = Inr (ok_response example_listing) \<and>
   scrape_and_translate_papers no_key_world initial_state =
     (Inr (), initial_state\<lparr>console := [msg_key_missing, msg_check_env]\<rparr>) \<and>
   requested (snd (scrape_and_translate_papers no_key_world initial_state)) = [] \<and>
   api_log (snd (scrape_and_translate_papers no_key_world initial_state)) = []"
proof -
  have "scrape_and_translate_papers no_key_world initial_state =
      (Inr (), py_print msg_check_env (py_print msg_key_missing initial_state))"
    by (simp add: scrape_and_translate_papers_def setup_api_def no_key_world_def)
  then show ?thesis
    by (simp add: py_print_def initial_state_def no_key_world_def example_world_def)
qed

end
